theory Spec2Isabelle
  imports Complex_Main "HOL-Library.Sublist" "HOL-Library.Log_Nat"
begin

section \<open>Numbers, points and buffers\<close>

text \<open>
  The module \<^verbatim>\<open>bounding_box.py\<close> computes with Python and NumPy floats. A float is
  modelled by the real number it stands for. In the projection and in the area the
  operations are the exact ones of the reals: rounding, overflow and the non-finite
  values (NumPy divides by a zero depth without raising and yields \<^verbatim>\<open>inf\<close> or
  \<^verbatim>\<open>nan\<close>) are outside the model there. The heading is computed with the rounded
  operations of binary64, because its range depends on the rounding. Vertex counts are
  natural numbers.

  A NumPy matrix of points is represented by the list of its points, whether the points
  are its rows (the \<open>N\<times>4\<close> array of box corners, the \<open>N\<times>3\<close> array of projections) or its
  columns (the \<open>4\<times>N\<close> and \<open>3\<times>N\<close> matrices of the sensor frame); a transposition changes
  the NumPy layout only. The calibration matrix is the triple of its rows.
\<close>

type_synonym vec3 = "real \<times> real \<times> real"
type_synonym vec4 = "real \<times> real \<times> real \<times> real"
type_synonym mat3 = "vec3 \<times> vec3 \<times> vec3"
type_synonym color = "nat \<times> nat \<times> nat"

text \<open>
  The depth buffer is read through \<^verbatim>\<open>depth_map[row, col]\<close>; the interface section of the
  specification gives it as the accessor \<^verbatim>\<open>depth_at(row, col)\<close>.
\<close>

type_synonym depth_buffer = "int \<Rightarrow> int \<Rightarrow> real"

datatype error = IndexError | ValueError | ZeroDivisionError

datatype log_record = Warning string | Info string real

definition OCCLUDED_VERTEX_COLOR :: color where
  "OCCLUDED_VERTEX_COLOR = (255, 0, 0)"

definition VISIBLE_VERTEX_COLOR :: color where
  "VISIBLE_VERTEX_COLOR = (0, 255, 0)"

definition MIN_VISIBLE_VERTICES_FOR_RENDER :: nat where
  "MIN_VISIBLE_VERTICES_FOR_RENDER = 4"

definition MIN_BBOX_AREA_IN_PX :: real where
  "MIN_BBOX_AREA_IN_PX = 100"

section \<open>The helpers of \<^verbatim>\<open>camera_utils\<close>\<close>

text \<open>
  \<^verbatim>\<open>from camera_utils import *\<close> brings in \<^verbatim>\<open>point_in_canvas\<close>, \<^verbatim>\<open>point_is_occluded\<close>,
  \<^verbatim>\<open>draw_rect\<close> and \<^verbatim>\<open>calc_projected_2d_bbox\<close>. The canvas size and the drawing routine
  are parameters of the model; \<^verbatim>\<open>draw_rect\<close> receives the image only and returns the image
  it has drawn on.
\<close>

record 'img camera_utils =
  WINDOW_WIDTH :: int
  WINDOW_HEIGHT :: int
  draw_rect :: "'img \<Rightarrow> real \<times> real \<Rightarrow> nat \<Rightarrow> color \<Rightarrow> 'img"

text \<open>
  Modelled from the spec: \<^verbatim>\<open>point_in_canvas\<close> of \<^verbatim>\<open>camera_utils\<close>, which is not part of
  the sources at hand. Section 4.3 places a pixel \<open>(x, y)\<close> inside the canvas when it lies in
  \<open>[0, width) \<times> [0, height)\<close>. The caller passes the pair \<open>(y, x)\<close>.
\<close>

definition point_in_canvas :: "'img camera_utils \<Rightarrow> real \<times> real \<Rightarrow> bool" where
  "point_in_canvas cu pos =
     (0 \<le> fst pos \<and> fst pos < of_int (WINDOW_HEIGHT cu) \<and>
      0 \<le> snd pos \<and> snd pos < of_int (WINDOW_WIDTH cu))"

text \<open>
  Modelled from the spec: \<^verbatim>\<open>point_is_occluded\<close> of \<^verbatim>\<open>camera_utils\<close>, which is not part
  of the sources at hand. Section 4.3 looks the depth buffer up at the integer row and
  column of the pixel and calls the point occluded when the stored scene depth is
  strictly less than the depth of the point. The integer row and column are those of the
  pixel that contains the point, so an in-canvas point reads inside the buffer.
\<close>

definition point_is_occluded :: "real \<times> real \<Rightarrow> real \<Rightarrow> depth_buffer \<Rightarrow> bool" where
  "point_is_occluded point vertex_depth depth_map =
     (depth_map \<lfloor>fst point\<rfloor> \<lfloor>snd point\<rfloor> < vertex_depth)"

text \<open>
  Modelled from the spec: \<^verbatim>\<open>calc_projected_2d_bbox\<close> of \<^verbatim>\<open>camera_utils\<close>, which is not
  part of the sources at hand. Step 4 of section 4.4 takes the axis-aligned bounds over
  all corner projections, whether visible or not, in the order
  \<open>(xmin, ymin, xmax, ymax)\<close>. The minimum of no points does not exist; Python raises
  \<^verbatim>\<open>ValueError\<close> there.
\<close>

fun calc_projected_2d_bbox :: "vec3 list \<Rightarrow> error + (real \<times> real \<times> real \<times> real)" where
  "calc_projected_2d_bbox [] = Inl ValueError"
| "calc_projected_2d_bbox (p # ps) =
     (let xs = map fst (p # ps); ys = map (\<lambda>q. fst (snd q)) (p # ps)
      in Inr (Min (set xs), Min (set ys), Max (set xs), Max (set ys)))"

section \<open>Occlusion statistics\<close>

text \<open>
  The loop of \<^verbatim>\<open>calculate_occlusion_stats\<close> runs over the rows of \<^verbatim>\<open>bbox_points\<close> and
  carries the two counters. The image and the depth buffer are NumPy arrays passed by
  reference, so the model carries them as state too and returns them with the counters:
  the result is \<open>(img, depth_map, num_visible_vertices, num_vertices_outside_camera)\<close>.
\<close>

fun calculate_occlusion_stats_loop ::
  "'img camera_utils \<Rightarrow> real \<Rightarrow> bool \<Rightarrow> vec3 list \<Rightarrow>
     'img \<times> depth_buffer \<times> nat \<times> nat \<Rightarrow> 'img \<times> depth_buffer \<times> nat \<times> nat" where
  "calculate_occlusion_stats_loop cu max_render_depth draw_vertices [] st = st"
| "calculate_occlusion_stats_loop cu max_render_depth draw_vertices
     ((x_2d, y_2d, point_depth) # rest)
     (img, depth_map, num_visible_vertices, num_vertices_outside_camera) =
     (if max_render_depth > point_depth \<and> point_depth > 0 \<and> point_in_canvas cu (y_2d, x_2d)
      then
        let is_occluded = point_is_occluded (y_2d, x_2d) point_depth depth_map;
            num_visible_vertices' =
              (if is_occluded then num_visible_vertices else num_visible_vertices + 1);
            vertex_color =
              (if is_occluded then OCCLUDED_VERTEX_COLOR else VISIBLE_VERTEX_COLOR);
            img' =
              (if draw_vertices then draw_rect cu img (y_2d, x_2d) 4 vertex_color
               else img)
        in calculate_occlusion_stats_loop cu max_render_depth draw_vertices rest
             (img', depth_map, num_visible_vertices', num_vertices_outside_camera)
      else
        calculate_occlusion_stats_loop cu max_render_depth draw_vertices rest
          (img, depth_map, num_visible_vertices, num_vertices_outside_camera + 1))"

definition calculate_occlusion_stats ::
  "'img camera_utils \<Rightarrow> 'img \<Rightarrow> vec3 list \<Rightarrow> depth_buffer \<Rightarrow> real \<Rightarrow> bool \<Rightarrow>
     'img \<times> depth_buffer \<times> nat \<times> nat" where
  "calculate_occlusion_stats cu img bbox_points depth_map max_render_depth draw_vertices =
     calculate_occlusion_stats_loop cu max_render_depth draw_vertices bbox_points
       (img, depth_map, 0, 0)"

section \<open>Agents and the bounding-box helpers\<close>

text \<open>
  The fields of a CARLA actor that the module reads: the type tag \<^verbatim>\<open>type_id\<close>, the pose
  returned by \<^verbatim>\<open>get_transform()\<close> and the bounding box with its location and extent.
\<close>

record carla_rotation =
  pitch :: real
  yaw :: real
  roll :: real

record carla_transform =
  location :: vec3
  rotation :: carla_rotation

record carla_bounding_box =
  box_location :: vec3
  extent :: vec3

record agent =
  type_id :: string
  get_transform :: carla_transform
  bounding_box :: carla_bounding_box

text \<open>\<^verbatim>\<open>Transform(location)\<close> of CARLA: the given location and no rotation.\<close>

definition Transform :: "vec3 \<Rightarrow> carla_transform" where
  "Transform loc = \<lparr>location = loc, rotation = \<lparr>pitch = 0, yaw = 0, roll = 0\<rparr>\<rparr>"

text \<open>
  \<^verbatim>\<open>ClientSideBoundingBoxes\<close> comes from the CARLA client examples. Its two static
  methods are parameters of the model: \<^verbatim>\<open>_create_bb_points\<close> gives the box corners as
  homogeneous rows, \<^verbatim>\<open>_vehicle_to_sensor\<close> maps such rows to the columns of a \<open>4\<times>N\<close>
  matrix in the frame of the sensor.
\<close>

record 'camera client_side_bounding_boxes =
  create_bb_points :: "agent \<Rightarrow> vec4 list"
  vehicle_to_sensor :: "vec4 list \<Rightarrow> agent \<Rightarrow> 'camera \<Rightarrow> vec4 list"

definition dot3 :: "vec3 \<Rightarrow> vec3 \<Rightarrow> real" where
  "dot3 r p = (case r of (a, b, c) \<Rightarrow> case p of (x, y, z) \<Rightarrow> a * x + b * y + c * z)"

text \<open>\<^verbatim>\<open>np.dot\<close> of a \<open>3\<times>3\<close> matrix with one column.\<close>

definition np_dot :: "mat3 \<Rightarrow> vec3 \<Rightarrow> vec3" where
  "np_dot m p = (case m of (row0, row1, row2) \<Rightarrow> (dot3 row0 p, dot3 row1 p, dot3 row2 p))"

text \<open>
  \<^verbatim>\<open>get_bounding_box_and_refpoint\<close>, line by line. Indexing the last row of a matrix
  without rows raises \<^verbatim>\<open>IndexError\<close>; the slice \<^verbatim>\<open>[:-1, :]\<close> never raises.
\<close>

definition get_bounding_box_and_refpoint ::
  "'camera client_side_bounding_boxes \<Rightarrow> agent \<Rightarrow> 'camera \<Rightarrow> mat3 \<Rightarrow>
     error + ((vec3 list \<times> vec3) \<times> (vec3 list \<times> vec3))" where
  "get_bounding_box_and_refpoint bbs agent camera camera_calibration =
     (let bbox_refpoint = [(0, 0, 0, 1)];
          bb_cords = create_bb_points bbs agent;
          bb_cords_and_refpoint = bb_cords @ bbox_refpoint;
          cords_x_y_z =
            map (\<lambda>(x, y, z, w). (x, y, z))
              (vehicle_to_sensor bbs bb_cords_and_refpoint agent camera);
          cords_y_minus_z_x = map (\<lambda>(x, y, z). (y, - z, x)) cords_x_y_z;
          bbox_and_refpoint = map (np_dot camera_calibration) cords_y_minus_z_x;
          camera_bbox_refpoint = map (\<lambda>(u, v, d). (u / d, v / d, d)) bbox_and_refpoint;
          sensor_bbox_refpoint = cords_x_y_z
      in if camera_bbox_refpoint = [] then Inl IndexError
         else Inr ((butlast camera_bbox_refpoint, last camera_bbox_refpoint),
                   (butlast sensor_bbox_refpoint, last sensor_bbox_refpoint)))"

section \<open>Heading, classification and area\<close>

text \<open>
  The heading is computed by \<^verbatim>\<open>math.radians(rot_agent - rot_vehicle) % math.pi\<close> on
  Python floats, which are binary64 numbers: a mantissa of 53 bits and a binary exponent
  from \<open>- 1074\<close> upwards. Every arithmetic operation returns the double nearest to the
  exact result, a tie going to the even mantissa. The model has no infinities: an exact
  result of magnitude \<open>2 ^ 1024\<close> or more, which the hardware turns into \<^verbatim>\<open>inf\<close>, is
  rounded like any other number, so the model agrees with the program where no operation
  overflows. The reals have one zero, so the sign of a zero is not modelled.
\<close>

definition round_half_even :: "real \<Rightarrow> int" where
  "round_half_even t =
     (let f = \<lfloor>t\<rfloor>
      in if t - of_int f < 1 / 2 then f
         else if 1 / 2 < t - of_int f then f + 1
         else if even f then f else f + 1)"

text \<open>
  For a positive \<open>x\<close>, the exponent \<open>k\<close> with \<open>2 ^ k \<le> x < 2 ^ (k + 1)\<close>, from the bit
  length of an integer.
\<close>

definition ilog2 :: "real \<Rightarrow> int" where
  "ilog2 x = (if 1 \<le> x then bitlen \<lfloor>x\<rfloor> - 1 else - bitlen (\<lceil>1 / x\<rceil> - 1))"

text \<open>
  Rounding to the nearest double: the last bit of the mantissa has the weight \<open>2 ^ e\<close>
  with \<open>e\<close> the exponent of \<open>x\<close> less 52, and not below \<open>- 1074\<close> (the subnormal numbers).
\<close>

definition round_double :: "real \<Rightarrow> real" where
  "round_double x =
     (if x = 0 then 0
      else let e = max (ilog2 \<bar>x\<bar> - 52) (- 1074)
           in of_int (round_half_even (x / 2 powi e)) * 2 powi e)"

text \<open>
  \<^verbatim>\<open>math.pi\<close> is the double nearest to \<open>\<pi>\<close>, and \<^verbatim>\<open>math.radians(x)\<close> is the product
  \<^verbatim>\<open>x * degToRad\<close> with the constant \<^verbatim>\<open>degToRad = Py_MATH_PI / 180.0\<close> of CPython's
  \<^verbatim>\<open>mathmodule.c\<close>.
\<close>

definition math_pi :: real where
  "math_pi = 884279719003555 / 2 ^ 48"

definition degToRad :: real where
  "degToRad = round_double (math_pi / 180)"

definition radians :: "real \<Rightarrow> real" where
  "radians x = round_double (x * degToRad)"

definition get_relative_rotation_y :: "agent \<Rightarrow> carla_transform \<Rightarrow> real" where
  "get_relative_rotation_y agent player_transform =
     (let rot_agent = yaw (rotation (get_transform agent));
          rot_vehicle = yaw (rotation player_transform)
      in radians (round_double (rot_agent - rot_vehicle)))"

text \<open>
  The \<^verbatim>\<open>fmod\<close> of C: the remainder of the division with the quotient cut towards zero.
  It has the sign of \<open>x\<close> and is exact, a double for doubles \<open>x\<close> and \<open>y\<close>.
\<close>

definition fmod :: "real \<Rightarrow> real \<Rightarrow> real" where
  "fmod x y = x - y * of_int (if 0 \<le> x / y then \<lfloor>x / y\<rfloor> else \<lceil>x / y\<rceil>)"

text \<open>
  Python's \<^verbatim>\<open>%\<close> on floats is \<^verbatim>\<open>float_rem\<close> of CPython's \<^verbatim>\<open>floatobject.c\<close>: a zero
  modulus raises; otherwise the remainder of \<^verbatim>\<open>fmod\<close> is taken, and when it is not zero
  and its sign differs from the sign of the modulus, the modulus is added to it, which is
  a rounded addition.
\<close>

definition float_rem :: "real \<Rightarrow> real \<Rightarrow> real" where
  "float_rem vx wx =
     (let m = fmod vx wx
      in if m \<noteq> 0 then (if (wx < 0) \<noteq> (m < 0) then round_double (m + wx) else m)
         else 0)"

definition float_mod :: "real \<Rightarrow> real \<Rightarrow> error + real" where
  "float_mod x y = (if y = 0 then Inl ZeroDivisionError else Inr (float_rem x y))"

text \<open>
  \<^verbatim>\<open>transforms_from_agent\<close>. The tuple of five \<^verbatim>\<open>None\<close> that the unclassified branch
  returns is the value \<open>None\<close> here.
\<close>

definition transforms_from_agent ::
  "agent \<Rightarrow> (string \<times> carla_transform \<times> carla_transform \<times> vec3 \<times> vec3) option" where
  "transforms_from_agent agent =
     (let obj_type =
            (if sublist ''pedestrian'' (type_id agent) then Some ''Pedestrian''
             else if sublist ''vehicle'' (type_id agent) then Some ''Car''
             else None)
      in case obj_type of
           None \<Rightarrow> None
         | Some t \<Rightarrow>
             let agent_transform = get_transform agent;
                 bbox_transform = Transform (box_location (bounding_box agent));
                 ext = extent (bounding_box agent);
                 agent_location = location agent_transform
             in Some (t, agent_transform, bbox_transform, ext, agent_location))"

definition calc_bbox2d_area :: "real \<times> real \<times> real \<times> real \<Rightarrow> real" where
  "calc_bbox2d_area bbox_2d =
     (case bbox_2d of (xmin, ymin, xmax, ymax) \<Rightarrow> (ymax - ymin) * (xmax - xmin))"

section \<open>The label\<close>

text \<open>
  Modelled from the spec: \<^verbatim>\<open>KittiDescriptor\<close> of \<^verbatim>\<open>datadescriptor\<close>, which is not part of
  the sources at hand. Section 3 lists the fields of a label (object class, 2D box,
  3D extents, 3D location, heading) and step 7 of section 4.4 fills them with the values
  as given; each setter stores its argument.
\<close>

record KittiDescriptor =
  kitti_type :: "string option"
  kitti_bbox :: "(real \<times> real \<times> real \<times> real) option"
  kitti_dimensions :: "vec3 option"
  kitti_location :: "vec3 option"
  kitti_rotation_y :: "real option"

text \<open>
  Modelled from the spec: the constructor and the setters of \<^verbatim>\<open>KittiDescriptor\<close>. A new
  descriptor has no field set; a setter stores the value it is given in its field.
\<close>

definition new_KittiDescriptor :: KittiDescriptor where
  "new_KittiDescriptor =
     \<lparr>kitti_type = None, kitti_bbox = None, kitti_dimensions = None,
      kitti_location = None, kitti_rotation_y = None\<rparr>"

definition set_type :: "KittiDescriptor \<Rightarrow> string \<Rightarrow> KittiDescriptor" where
  "set_type d t = d\<lparr>kitti_type := Some t\<rparr>"

definition set_bbox :: "KittiDescriptor \<Rightarrow> real \<times> real \<times> real \<times> real \<Rightarrow> KittiDescriptor" where
  "set_bbox d b = d\<lparr>kitti_bbox := Some b\<rparr>"

definition set_3d_object_dimensions :: "KittiDescriptor \<Rightarrow> vec3 \<Rightarrow> KittiDescriptor" where
  "set_3d_object_dimensions d e = d\<lparr>kitti_dimensions := Some e\<rparr>"

definition set_3d_object_location :: "KittiDescriptor \<Rightarrow> vec3 \<Rightarrow> KittiDescriptor" where
  "set_3d_object_location d l = d\<lparr>kitti_location := Some l\<rparr>"

definition set_rotation_y :: "KittiDescriptor \<Rightarrow> real \<Rightarrow> KittiDescriptor" where
  "set_rotation_y d r = d\<lparr>kitti_rotation_y := Some r\<rparr>"

section \<open>The data point of one agent\<close>

text \<open>
  \<^verbatim>\<open>create_kitti_datapoint\<close> returns a tuple of two components on one path and of three
  on the others.
\<close>

datatype 'img returned =
  Tuple2 'img "KittiDescriptor option"
| Tuple3 'img "KittiDescriptor option" "vec3 list option"

text \<open>
  The condition of the visibility test,
  \<^verbatim>\<open>num_visible_vertices >= MIN_VISIBLE_VERTICES_FOR_RENDER > num_vertices_outside_camera\<close>,
  with the constant as its first argument.
\<close>

definition vertices_gate :: "nat \<Rightarrow> nat \<Rightarrow> nat \<Rightarrow> bool" where
  "vertices_gate m num_visible_vertices num_vertices_outside_camera =
     (num_visible_vertices \<ge> m \<and> m > num_vertices_outside_camera)"

text \<open>
  \<^verbatim>\<open>create_kitti_datapoint\<close>. The argument \<open>max_render_depth\<close> is optional in the source
  and defaults to 70. The records written through \<^verbatim>\<open>logging\<close> are appended to the list
  \<open>logged\<close>; the result holds the returned tuple, the depth buffer and the log after the
  call.
\<close>

definition create_kitti_datapoint ::
  "'img camera_utils \<Rightarrow> 'camera client_side_bounding_boxes \<Rightarrow> agent \<Rightarrow> 'camera \<Rightarrow> mat3 \<Rightarrow>
     'img \<Rightarrow> depth_buffer \<Rightarrow> carla_transform \<Rightarrow> real option \<Rightarrow> log_record list \<Rightarrow>
     error + ('img returned \<times> depth_buffer \<times> log_record list)" where
  "create_kitti_datapoint cu bbs agent camera cam_calibration img depth_map player_transform
     max_render_depth_arg logged =
     (let max_render_depth = (case max_render_depth_arg of None \<Rightarrow> 70 | Some m \<Rightarrow> m)
      in case transforms_from_agent agent of
           None \<Rightarrow>
             Inr (Tuple2 img None, depth_map,
                  logged @ [Warning ''Could not get bounding box for agent. Object type is None''])
         | Some (obj_type, agent_transform, bbox_transform, ext, agent_location) \<Rightarrow>
             (case get_bounding_box_and_refpoint bbs agent camera cam_calibration of
                Inl e \<Rightarrow> Inl e
              | Inr ((camera_bbox, camera_refpoint), (sensor_bbox, sensor_refpoint)) \<Rightarrow>
                  (case calculate_occlusion_stats cu img camera_bbox depth_map
                          max_render_depth False of
                     (img', depth_map', num_visible_vertices, num_vertices_outside_camera) \<Rightarrow>
                       if vertices_gate MIN_VISIBLE_VERTICES_FOR_RENDER
                            num_visible_vertices num_vertices_outside_camera
                       then
                         (case calc_projected_2d_bbox camera_bbox of
                            Inl e \<Rightarrow> Inl e
                          | Inr bbox_2d \<Rightarrow>
                              let area = calc_bbox2d_area bbox_2d
                              in if area < MIN_BBOX_AREA_IN_PX
                                 then
                                   Inr (Tuple3 img' None None, depth_map',
                                        logged @
                                        [Info ''Filtered out bbox with too low area {}'' area])
                                 else
                                   (case float_mod
                                           (get_relative_rotation_y agent player_transform)
                                           math_pi of
                                      Inl e \<Rightarrow> Inl e
                                    | Inr rotation_y \<Rightarrow>
                                        let datapoint = new_KittiDescriptor;
                                            datapoint = set_type datapoint obj_type;
                                            datapoint = set_bbox datapoint bbox_2d;
                                            datapoint = set_3d_object_dimensions datapoint ext;
                                            datapoint =
                                              set_3d_object_location datapoint sensor_refpoint;
                                            datapoint = set_rotation_y datapoint rotation_y
                                        in Inr (Tuple3 img' (Some datapoint) (Some camera_bbox),
                                                depth_map', logged)))
                       else Inr (Tuple3 img' None None, depth_map', logged))))"

section \<open>A test scene\<close>

text \<open>
  A scene on which the functions are evaluated: a canvas of 100 by 100 pixels whose
  drawing routine records the marked positions and their colours, a camera at the origin that looks along
  the x axis, and an agent one and a half units ahead of it with half-extents
  \<open>(1/2, 1, 1)\<close>. The corners are listed in the order of the CARLA client example and the
  sensor transform is the translation by the position of the agent. The calibration has
  the principal point \<open>(50, 50)\<close>, the horizontal focal length 5 and the vertical focal
  length \<open>fy\<close>, so the projected box is 10 pixels wide and \<open>2 * fy\<close> pixels high.
\<close>

definition scene_camera_utils :: "((real \<times> real) \<times> color) list camera_utils" where
  "scene_camera_utils =
     \<lparr>WINDOW_WIDTH = 100, WINDOW_HEIGHT = 100,
      draw_rect = (\<lambda>img pos size color. (pos, color) # img)\<rparr>"

definition scene_boxes :: "unit client_side_bounding_boxes" where
  "scene_boxes =
     \<lparr>create_bb_points =
        (\<lambda>a. case extent (bounding_box a) of
                (ex, ey, ez) \<Rightarrow>
                  [(ex, ey, - ez, 1), (- ex, ey, - ez, 1), (- ex, - ey, - ez, 1),
                   (ex, - ey, - ez, 1), (ex, ey, ez, 1), (- ex, ey, ez, 1),
                   (- ex, - ey, ez, 1), (ex, - ey, ez, 1)]),
      vehicle_to_sensor =
        (\<lambda>cords a cam.
           case location (get_transform a) of
             (tx, ty, tz) \<Rightarrow> map (\<lambda>(x, y, z, w). (x + tx * w, y + ty * w, z + tz * w, w)) cords)\<rparr>"

definition scene_agent :: "string \<Rightarrow> agent" where
  "scene_agent tag =
     \<lparr>type_id = tag,
      get_transform =
        \<lparr>location = (3 / 2, 0, 0), rotation = \<lparr>pitch = 0, yaw = 10, roll = 0\<rparr>\<rparr>,
      bounding_box = \<lparr>box_location = (0, 0, 0), extent = (1 / 2, 1, 1)\<rparr>\<rparr>"

text \<open>The agent and the reference pose of the scene with other yaws.\<close>

definition scene_agent_yaw :: "real \<Rightarrow> agent" where
  "scene_agent_yaw y =
     \<lparr>type_id = ''vehicle.tesla.model3'',
      get_transform =
        \<lparr>location = (3 / 2, 0, 0), rotation = \<lparr>pitch = 0, yaw = y, roll = 0\<rparr>\<rparr>,
      bounding_box = \<lparr>box_location = (0, 0, 0), extent = (1 / 2, 1, 1)\<rparr>\<rparr>"

definition scene_player_yaw :: "real \<Rightarrow> carla_transform" where
  "scene_player_yaw y =
     \<lparr>location = (0, 0, 0), rotation = \<lparr>pitch = 0, yaw = y, roll = 0\<rparr>\<rparr>"

definition scene_calibration :: "real \<Rightarrow> mat3" where
  "scene_calibration fy = ((5, 0, 50), (0, fy, 50), (0, 0, 1))"

definition scene_depth_map :: "real \<Rightarrow> depth_buffer" where
  "scene_depth_map stored = (\<lambda>row col. stored)"

definition scene_player_transform :: carla_transform where
  "scene_player_transform =
     \<lparr>location = (0, 0, 0), rotation = \<lparr>pitch = 0, yaw = 370, roll = 0\<rparr>\<rparr>"

text \<open>The eight corner projections of the scene for the vertical focal length \<open>fy\<close>.\<close>

definition scene_camera_bbox :: "real \<Rightarrow> vec3 list" where
  "scene_camera_bbox fy =
     [(105 / 2, (fy + 100) / 2, 2), (55, fy + 50, 1), (45, fy + 50, 1),
      (95 / 2, (fy + 100) / 2, 2), (105 / 2, (100 - fy) / 2, 2), (55, 50 - fy, 1),
      (45, 50 - fy, 1), (95 / 2, (100 - fy) / 2, 2)]"

text \<open>The components of the returned tuple.\<close>

fun returned_image :: "'img returned \<Rightarrow> 'img" where
  "returned_image (Tuple2 i l) = i"
| "returned_image (Tuple3 i l b) = i"

fun returned_label :: "'img returned \<Rightarrow> KittiDescriptor option" where
  "returned_label (Tuple2 i l) = l"
| "returned_label (Tuple3 i l b) = l"

fun returned_box :: "'img returned \<Rightarrow> vec3 list option" where
  "returned_box (Tuple2 i l) = None"
| "returned_box (Tuple3 i l b) = b"

text \<open>
  The helpers of the test scene with a sensor transform that returns a matrix without
  columns, on which the geometry raises \<^verbatim>\<open>IndexError\<close>.
\<close>

definition scene_broken_boxes :: "unit client_side_bounding_boxes" where
  "scene_broken_boxes = scene_boxes\<lparr>vehicle_to_sensor := (\<lambda>cords a cam. [])\<rparr>"

section \<open>Properties of the vertex loop\<close>

lemma loop_append:
  "calculate_occlusion_stats_loop cu m dv (ps @ qs) st =
   calculate_occlusion_stats_loop cu m dv qs (calculate_occlusion_stats_loop cu m dv ps st)"
proof (induction ps arbitrary: st)
  case Nil
  show ?case by simp
next
  case (Cons p ps)
  obtain x y d where p: "p = (x, y, d)" by (cases p) auto
  obtain i dm v o' where st: "st = (i, dm, v, o')" by (cases st) auto
  show ?case unfolding p st by (simp add: Cons.IH Let_def)
qed

lemma loop_shift:
  assumes "calculate_occlusion_stats_loop cu m dv ps (i, dm, v, o') = (i', dm', v', o'')"
  shows "calculate_occlusion_stats_loop cu m dv ps (i, dm, v + k, o' + j) =
           (i', dm', v' + k, o'' + j)"
  using assms
proof (induction ps arbitrary: i v o')
  case Nil
  then show ?case by simp
next
  case (Cons p ps)
  obtain x y d where p: "p = (x, y, d)" by (cases p) auto
  show ?case
  proof (cases "m > d \<and> d > 0 \<and> point_in_canvas cu (y, x)")
    case True
    define v2 where "v2 = (if point_is_occluded (y, x) d dm then v else v + 1)"
    define i2 where "i2 =
      (if dv then draw_rect cu i (y, x) 4
         (if point_is_occluded (y, x) d dm then OCCLUDED_VERTEX_COLOR
          else VISIBLE_VERTEX_COLOR)
       else i)"
    have "calculate_occlusion_stats_loop cu m dv ps (i2, dm, v2, o') = (i', dm', v', o'')"
      using Cons.prems True unfolding p v2_def i2_def by (auto simp: Let_def)
    then have "calculate_occlusion_stats_loop cu m dv ps (i2, dm, v2 + k, o' + j) =
                 (i', dm', v' + k, o'' + j)"
      by (rule Cons.IH)
    moreover have "(if point_is_occluded (y, x) d dm then v + k else v + k + 1) = v2 + k"
      unfolding v2_def by simp
    ultimately show ?thesis
      using True unfolding p i2_def by (auto simp: Let_def)
  next
    case False
    have "calculate_occlusion_stats_loop cu m dv ps (i, dm, v, o' + 1) = (i', dm', v', o'')"
      using Cons.prems False unfolding p by auto
    then have "calculate_occlusion_stats_loop cu m dv ps (i, dm, v + k, o' + 1 + j) =
                 (i', dm', v' + k, o'' + j)"
      by (rule Cons.IH)
    moreover have "o' + j + 1 = o' + 1 + j" by simp
    ultimately show ?thesis
      using False unfolding p by auto
  qed
qed

lemma loop_depth_map:
  "fst (snd (calculate_occlusion_stats_loop cu m dv ps (i, dm, v, o'))) = dm"
proof (induction ps arbitrary: i v o')
  case Nil
  show ?case by simp
next
  case (Cons p ps)
  obtain x y d where p: "p = (x, y, d)" by (cases p) auto
  show ?case unfolding p by (simp add: Cons.IH Let_def)
qed

lemma loop_counts:
  "snd (snd (calculate_occlusion_stats_loop cu m dv ps (i, dm, v, o'))) =
   snd (snd (calculate_occlusion_stats_loop cu m dv' ps (i', dm, v, o')))"
proof (induction ps arbitrary: i i' v o')
  case Nil
  show ?case by simp
next
  case (Cons p ps)
  obtain x y d where p: "p = (x, y, d)" by (cases p) auto
  show ?case unfolding p using Cons.IH by (simp add: Let_def)
qed

lemma loop_no_draw:
  "calculate_occlusion_stats_loop (cu\<lparr>draw_rect := f\<rparr>) m False ps st =
   calculate_occlusion_stats_loop cu m False ps st"
proof (induction ps arbitrary: st)
  case Nil
  show ?case by simp
next
  case (Cons p ps)
  obtain x y d where p: "p = (x, y, d)" by (cases p) auto
  obtain i dm v o' where st: "st = (i, dm, v, o')" by (cases st) auto
  show ?case unfolding p st by (simp add: Cons.IH Let_def point_in_canvas_def)
qed

lemma loop_no_draw_image:
  "fst (calculate_occlusion_stats_loop cu m False ps (i, dm, v, o')) = i"
proof (induction ps arbitrary: v o')
  case Nil
  show ?case by simp
next
  case (Cons p ps)
  obtain x y d where p: "p = (x, y, d)" by (cases p) auto
  show ?case unfolding p by (simp add: Cons.IH Let_def)
qed

lemma loop_count_total:
  assumes "calculate_occlusion_stats_loop cu m dv ps (i, dm, v, o') = (i', dm', v', o'')"
  shows "v' + o'' \<le> v + o' + length ps"
  using assms
proof (induction ps arbitrary: i v o')
  case Nil
  then show ?case by simp
next
  case (Cons p ps)
  obtain x y d where p: "p = (x, y, d)" by (cases p) auto
  show ?case
  proof (cases "m > d \<and> d > 0 \<and> point_in_canvas cu (y, x)")
    case True
    define v2 where "v2 = (if point_is_occluded (y, x) d dm then v else v + 1)"
    define i2 where "i2 =
      (if dv then draw_rect cu i (y, x) 4
         (if point_is_occluded (y, x) d dm then OCCLUDED_VERTEX_COLOR
          else VISIBLE_VERTEX_COLOR)
       else i)"
    have "calculate_occlusion_stats_loop cu m dv ps (i2, dm, v2, o') = (i', dm', v', o'')"
      using Cons.prems True unfolding p v2_def i2_def by (auto simp: Let_def)
    then have "v' + o'' \<le> v2 + o' + length ps"
      by (rule Cons.IH)
    moreover have "v2 \<le> v + 1"
      unfolding v2_def by simp
    ultimately show ?thesis by simp
  next
    case False
    have "calculate_occlusion_stats_loop cu m dv ps (i, dm, v, o' + 1) = (i', dm', v', o'')"
      using Cons.prems False unfolding p by auto
    then have "v' + o'' \<le> v + (o' + 1) + length ps"
      by (rule Cons.IH)
    then show ?thesis by simp
  qed
qed

lemma stats_no_draw:
  "\<exists>nv no. calculate_occlusion_stats cu img ps dm m False = (img, dm, nv, no)"
proof -
  obtain i d nv no where r: "calculate_occlusion_stats cu img ps dm m False = (i, d, nv, no)"
    by (cases "calculate_occlusion_stats cu img ps dm m False") auto
  have "i = img"
    using loop_no_draw_image [of cu m ps img dm 0 0] r
    by (simp add: calculate_occlusion_stats_def)
  moreover have "d = dm"
    using loop_depth_map [of cu m False ps img dm 0 0] r
    by (simp add: calculate_occlusion_stats_def)
  ultimately show ?thesis using r by simp
qed

section \<open>The claims about the occlusion statistics\<close>

lemma loop_outside_point:
  assumes "point_depth \<le> 0 \<or> max_render_depth \<le> point_depth \<or>
           \<not> (0 \<le> x_2d \<and> x_2d < of_int (WINDOW_WIDTH cu) \<and>
              0 \<le> y_2d \<and> y_2d < of_int (WINDOW_HEIGHT cu))"
  shows "calculate_occlusion_stats_loop cu max_render_depth dv ((x_2d, y_2d, point_depth) # qs)
           (i, dm, v, o') =
         calculate_occlusion_stats_loop cu max_render_depth dv qs (i, dm, v, o' + 1)"
  using assms by (auto simp: point_in_canvas_def)

text \<open>
  Claim C4. A projected corner whose depth is not positive, or is at least
  \<open>max_render_depth\<close>, or whose pixel \<open>(x, y)\<close> lies outside
  \<open>[0, width) \<times> [0, height)\<close>, adds one to the outside count and nothing else, wherever
  it stands among the corners: the result for the list with the point is the result for
  the list without it, with the outside count one higher. The depth buffer plays no part
  for the point: for the point alone the result is \<open>(img, depth buffer, 0, 1)\<close> whatever
  the depth buffer holds, and nothing is drawn. \<^verbatim>\<open>create_kitti_datapoint\<close> called
  without \<open>max_render_depth\<close> uses the cutoff 70.
\<close>

theorem outside_vertex_counted:
  assumes "point_depth \<le> 0 \<or> max_render_depth \<le> point_depth \<or>
           \<not> (0 \<le> x_2d \<and> x_2d < of_int (WINDOW_WIDTH cu) \<and>
              0 \<le> y_2d \<and> y_2d < of_int (WINDOW_HEIGHT cu))"
  shows "calculate_occlusion_stats cu img (ps @ (x_2d, y_2d, point_depth) # qs) depth_map
           max_render_depth draw_vertices =
         (case calculate_occlusion_stats cu img (ps @ qs) depth_map max_render_depth
                 draw_vertices of
            (img', depth_map', num_visible, num_outside) \<Rightarrow>
              (img', depth_map', num_visible, num_outside + 1)) \<and>
         calculate_occlusion_stats cu img [(x_2d, y_2d, point_depth)] other_depth_map
           max_render_depth draw_vertices = (img, other_depth_map, 0, 1) \<and>
         create_kitti_datapoint cu bbs agent camera cam_calibration img depth_map
           player_transform None logged =
         create_kitti_datapoint cu bbs agent camera cam_calibration img depth_map
           player_transform (Some 70) logged"
proof (intro conjI)
  obtain i1 d1 v1 o1 where
    before: "calculate_occlusion_stats_loop cu max_render_depth draw_vertices ps
               (img, depth_map, 0, 0) = (i1, d1, v1, o1)"
    by (cases "calculate_occlusion_stats_loop cu max_render_depth draw_vertices ps
                 (img, depth_map, 0, 0)") auto
  obtain i2 d2 v2 o2 where
    rest: "calculate_occlusion_stats_loop cu max_render_depth draw_vertices qs
             (i1, d1, v1, o1) = (i2, d2, v2, o2)"
    by (cases "calculate_occlusion_stats_loop cu max_render_depth draw_vertices qs
                 (i1, d1, v1, o1)") auto
  have "calculate_occlusion_stats_loop cu max_render_depth draw_vertices qs
          (i1, d1, v1 + 0, o1 + 1) = (i2, d2, v2 + 0, o2 + 1)"
    using rest by (rule loop_shift)
  then have "calculate_occlusion_stats_loop cu max_render_depth draw_vertices
               ((x_2d, y_2d, point_depth) # qs) (i1, d1, v1, o1) = (i2, d2, v2, o2 + 1)"
    using loop_outside_point [OF assms] by simp
  then show "calculate_occlusion_stats cu img (ps @ (x_2d, y_2d, point_depth) # qs) depth_map
               max_render_depth draw_vertices =
             (case calculate_occlusion_stats cu img (ps @ qs) depth_map max_render_depth
                     draw_vertices of
                (img', depth_map', num_visible, num_outside) \<Rightarrow>
                  (img', depth_map', num_visible, num_outside + 1))"
    unfolding calculate_occlusion_stats_def loop_append before rest by simp
next
  show "calculate_occlusion_stats cu img [(x_2d, y_2d, point_depth)] other_depth_map
          max_render_depth draw_vertices = (img, other_depth_map, 0, 1)"
    unfolding calculate_occlusion_stats_def using loop_outside_point [OF assms] by simp
next
  show "create_kitti_datapoint cu bbs agent camera cam_calibration img depth_map
          player_transform None logged =
        create_kitti_datapoint cu bbs agent camera cam_calibration img depth_map
          player_transform (Some 70) logged"
    by (simp add: create_kitti_datapoint_def)
qed

lemma loop_in_view_point:
  assumes "0 < point_depth" and "point_depth < max_render_depth"
    and "0 \<le> x_2d" and "x_2d < of_int (WINDOW_WIDTH cu)"
    and "0 \<le> y_2d" and "y_2d < of_int (WINDOW_HEIGHT cu)"
  shows "calculate_occlusion_stats_loop cu max_render_depth dv ((x_2d, y_2d, point_depth) # qs)
           (i, dm, v, o') =
         calculate_occlusion_stats_loop cu max_render_depth dv qs
           (if dv then draw_rect cu i (y_2d, x_2d) 4
              (if dm \<lfloor>y_2d\<rfloor> \<lfloor>x_2d\<rfloor> < point_depth then OCCLUDED_VERTEX_COLOR
               else VISIBLE_VERTEX_COLOR)
            else i,
            dm, if dm \<lfloor>y_2d\<rfloor> \<lfloor>x_2d\<rfloor> < point_depth then v else v + 1, o')"
  using assms by (auto simp: point_in_canvas_def point_is_occluded_def Let_def)

text \<open>
  Claim C5. For a projected corner in front of the camera, nearer than
  \<open>max_render_depth\<close> and inside the canvas: when the depth stored at its pixel is
  strictly less than its own depth, the corner is occluded, both counts stay as they are
  without it, and the marker drawn for it (when drawing is on) has the occluded colour;
  otherwise it is visible, the visible count is one higher and the outside count stays,
  and the marker has the visible colour.
\<close>

theorem in_view_vertex_classified:
  assumes "0 < point_depth" and "point_depth < max_render_depth"
    and "0 \<le> x_2d" and "x_2d < of_int (WINDOW_WIDTH cu)"
    and "0 \<le> y_2d" and "y_2d < of_int (WINDOW_HEIGHT cu)"
  shows "(depth_map \<lfloor>y_2d\<rfloor> \<lfloor>x_2d\<rfloor> < point_depth \<longrightarrow>
            snd (snd (calculate_occlusion_stats cu img (ps @ (x_2d, y_2d, point_depth) # qs)
                        depth_map max_render_depth draw_vertices)) =
            snd (snd (calculate_occlusion_stats cu img (ps @ qs) depth_map max_render_depth
                        draw_vertices)) \<and>
            calculate_occlusion_stats cu img [(x_2d, y_2d, point_depth)] depth_map
              max_render_depth draw_vertices =
            (if draw_vertices then draw_rect cu img (y_2d, x_2d) 4 OCCLUDED_VERTEX_COLOR
             else img, depth_map, 0, 0)) \<and>
         (\<not> depth_map \<lfloor>y_2d\<rfloor> \<lfloor>x_2d\<rfloor> < point_depth \<longrightarrow>
            snd (snd (calculate_occlusion_stats cu img (ps @ (x_2d, y_2d, point_depth) # qs)
                        depth_map max_render_depth draw_vertices)) =
            (case snd (snd (calculate_occlusion_stats cu img (ps @ qs) depth_map
                              max_render_depth draw_vertices)) of
               (num_visible, num_outside) \<Rightarrow> (num_visible + 1, num_outside)) \<and>
            calculate_occlusion_stats cu img [(x_2d, y_2d, point_depth)] depth_map
              max_render_depth draw_vertices =
            (if draw_vertices then draw_rect cu img (y_2d, x_2d) 4 VISIBLE_VERTEX_COLOR
             else img, depth_map, 1, 0))"
proof -
  note step = loop_in_view_point [OF assms]
  obtain i1 d1 v1 o1 where
    before: "calculate_occlusion_stats_loop cu max_render_depth draw_vertices ps
               (img, depth_map, 0, 0) = (i1, d1, v1, o1)"
    by (cases "calculate_occlusion_stats_loop cu max_render_depth draw_vertices ps
                 (img, depth_map, 0, 0)") auto
  have d1: "d1 = depth_map"
    using loop_depth_map [of cu max_render_depth draw_vertices ps img depth_map 0 0] before
    by simp
  obtain i2 d2 v2 o2 where
    rest: "calculate_occlusion_stats_loop cu max_render_depth draw_vertices qs
             (i1, d1, v1, o1) = (i2, d2, v2, o2)"
    by (cases "calculate_occlusion_stats_loop cu max_render_depth draw_vertices qs
                 (i1, d1, v1, o1)") auto
  have without: "snd (snd (calculate_occlusion_stats cu img (ps @ qs) depth_map
                             max_render_depth draw_vertices)) = (v2, o2)"
    unfolding calculate_occlusion_stats_def loop_append before rest by simp
  define i3 where "i3 =
    (if draw_vertices then draw_rect cu i1 (y_2d, x_2d) 4
       (if depth_map \<lfloor>y_2d\<rfloor> \<lfloor>x_2d\<rfloor> < point_depth then OCCLUDED_VERTEX_COLOR
        else VISIBLE_VERTEX_COLOR)
     else i1)"
  define v3 where "v3 = (if depth_map \<lfloor>y_2d\<rfloor> \<lfloor>x_2d\<rfloor> < point_depth then v1 else v1 + 1)"
  have whole: "calculate_occlusion_stats cu img (ps @ (x_2d, y_2d, point_depth) # qs)
                 depth_map max_render_depth draw_vertices =
               calculate_occlusion_stats_loop cu max_render_depth draw_vertices qs
                 (i3, d1, v3, o1)"
    unfolding calculate_occlusion_stats_def loop_append before step i3_def v3_def d1 ..
  have same_counts: "snd (snd (calculate_occlusion_stats_loop cu max_render_depth draw_vertices
                                 qs (i3, d1, v3, o1))) =
                     snd (snd (calculate_occlusion_stats_loop cu max_render_depth draw_vertices
                                 qs (i1, d1, v3, o1)))"
    by (rule loop_counts)
  have shifted: "calculate_occlusion_stats_loop cu max_render_depth draw_vertices qs
                   (i1, d1, v1 + 1, o1 + 0) = (i2, d2, v2 + 1, o2 + 0)"
    using rest by (rule loop_shift)
  show ?thesis
  proof (intro conjI impI)
    assume occ: "depth_map \<lfloor>y_2d\<rfloor> \<lfloor>x_2d\<rfloor> < point_depth"
    then have "v3 = v1" unfolding v3_def by simp
    then show "snd (snd (calculate_occlusion_stats cu img (ps @ (x_2d, y_2d, point_depth) # qs)
                      depth_map max_render_depth draw_vertices)) =
          snd (snd (calculate_occlusion_stats cu img (ps @ qs) depth_map max_render_depth
                      draw_vertices))"
      unfolding without whole same_counts using rest by simp
    show "calculate_occlusion_stats cu img [(x_2d, y_2d, point_depth)] depth_map
            max_render_depth draw_vertices =
          (if draw_vertices then draw_rect cu img (y_2d, x_2d) 4 OCCLUDED_VERTEX_COLOR
           else img, depth_map, 0, 0)"
      unfolding calculate_occlusion_stats_def step using occ by simp
  next
    assume vis: "\<not> depth_map \<lfloor>y_2d\<rfloor> \<lfloor>x_2d\<rfloor> < point_depth"
    then have "v3 = v1 + 1" unfolding v3_def by simp
    then show "snd (snd (calculate_occlusion_stats cu img (ps @ (x_2d, y_2d, point_depth) # qs)
                      depth_map max_render_depth draw_vertices)) =
          (case snd (snd (calculate_occlusion_stats cu img (ps @ qs) depth_map
                            max_render_depth draw_vertices)) of
             (num_visible, num_outside) \<Rightarrow> (num_visible + 1, num_outside))"
      unfolding without whole same_counts using shifted by simp
    show "calculate_occlusion_stats cu img [(x_2d, y_2d, point_depth)] depth_map
            max_render_depth draw_vertices =
          (if draw_vertices then draw_rect cu img (y_2d, x_2d) 4 VISIBLE_VERTEX_COLOR
           else img, depth_map, 1, 0)"
      unfolding calculate_occlusion_stats_def step using vis by simp
  qed
qed

text \<open>
  Claim C4 on the canvas of the test scene: a corner of depth 0, a corner of depth 70, a
  corner at column 100, and a corner at row 100 between two corners in view.
\<close>

theorem outside_vertex_counted_witness:
  "calculate_occlusion_stats scene_camera_utils [] [(10, 20, 0)] (scene_depth_map 5) 70 True =
     ([], scene_depth_map 5, 0, 1) \<and>
   calculate_occlusion_stats scene_camera_utils [] [(10, 20, 70)] (scene_depth_map 5) 70 True =
     ([], scene_depth_map 5, 0, 1) \<and>
   calculate_occlusion_stats scene_camera_utils [] [(100, 20, 4)] (scene_depth_map 5) 70 True =
     ([], scene_depth_map 5, 0, 1) \<and>
   calculate_occlusion_stats scene_camera_utils [] ([(10, 20, 4)] @ (10, 100, 4) # [(30, 30, 6)])
     (scene_depth_map 5) 70 False = ([], scene_depth_map 5, 1, 1)"
proof -
  have behind: "(0::real) \<le> 0 \<or> (70::real) \<le> 0 \<or>
      \<not> (0 \<le> (10::real) \<and> (10::real) < of_int (WINDOW_WIDTH scene_camera_utils) \<and>
         0 \<le> (20::real) \<and> (20::real) < of_int (WINDOW_HEIGHT scene_camera_utils))"
    by simp
  have far: "(70::real) \<le> 0 \<or> (70::real) \<le> 70 \<or>
      \<not> (0 \<le> (10::real) \<and> (10::real) < of_int (WINDOW_WIDTH scene_camera_utils) \<and>
         0 \<le> (20::real) \<and> (20::real) < of_int (WINDOW_HEIGHT scene_camera_utils))"
    by simp
  have right: "(4::real) \<le> 0 \<or> (70::real) \<le> 4 \<or>
      \<not> (0 \<le> (100::real) \<and> (100::real) < of_int (WINDOW_WIDTH scene_camera_utils) \<and>
         0 \<le> (20::real) \<and> (20::real) < of_int (WINDOW_HEIGHT scene_camera_utils))"
    by (simp add: scene_camera_utils_def)
  have below: "(4::real) \<le> 0 \<or> (70::real) \<le> 4 \<or>
      \<not> (0 \<le> (10::real) \<and> (10::real) < of_int (WINDOW_WIDTH scene_camera_utils) \<and>
         0 \<le> (100::real) \<and> (100::real) < of_int (WINDOW_HEIGHT scene_camera_utils))"
    by (simp add: scene_camera_utils_def)
  have others: "calculate_occlusion_stats scene_camera_utils [] ([(10, 20, 4)] @ [(30, 30, 6)])
                  (scene_depth_map 5) 70 False = ([], scene_depth_map 5, 1, 0)"
    by (simp add: calculate_occlusion_stats_def scene_camera_utils_def scene_depth_map_def
        point_in_canvas_def point_is_occluded_def Let_def)
  show ?thesis
    using outside_vertex_counted [OF behind, of "[]" "[]" "[]" "scene_depth_map 5" True
        "scene_depth_map 5", THEN conjunct2, THEN conjunct1]
      outside_vertex_counted [OF far, of "[]" "[]" "[]" "scene_depth_map 5" True
        "scene_depth_map 5", THEN conjunct2, THEN conjunct1]
      outside_vertex_counted [OF right, of "[]" "[]" "[]" "scene_depth_map 5" True
        "scene_depth_map 5", THEN conjunct2, THEN conjunct1]
      outside_vertex_counted [OF below, of "[]" "[(10, 20, 4)]" "[(30, 30, 6)]"
        "scene_depth_map 5" False "scene_depth_map 5", THEN conjunct1]
    unfolding others by simp
qed

text \<open>
  Claim C5 with a depth buffer that stores 5 everywhere: a corner of depth 6 is occluded,
  corners of depth 4 and of depth 5 are visible.
\<close>

theorem in_view_vertex_classified_witness:
  "calculate_occlusion_stats scene_camera_utils [] [(10, 20, 6)] (scene_depth_map 5) 70 True =
     ([((20, 10), OCCLUDED_VERTEX_COLOR)], scene_depth_map 5, 0, 0) \<and>
   calculate_occlusion_stats scene_camera_utils [] [(10, 20, 4)] (scene_depth_map 5) 70 True =
     ([((20, 10), VISIBLE_VERTEX_COLOR)], scene_depth_map 5, 1, 0) \<and>
   calculate_occlusion_stats scene_camera_utils [] [(10, 20, 5)] (scene_depth_map 5) 70 True =
     ([((20, 10), VISIBLE_VERTEX_COLOR)], scene_depth_map 5, 1, 0)"
proof -
  have canvas: "(0::real) \<le> 10" "(10::real) < of_int (WINDOW_WIDTH scene_camera_utils)"
    "(0::real) \<le> 20" "(20::real) < of_int (WINDOW_HEIGHT scene_camera_utils)"
    by (simp_all add: scene_camera_utils_def)
  have six: "(0::real) < 6" "(6::real) < 70"
    and four: "(0::real) < 4" "(4::real) < 70"
    and five: "(0::real) < 5" "(5::real) < 70"
    by simp_all
  have draw: "draw_rect scene_camera_utils [] (20, 10) 4 c = [((20, 10), c)]" for c
    by (simp add: scene_camera_utils_def)
  show ?thesis
    using in_view_vertex_classified [OF six canvas, of "scene_depth_map 5" "[]" "[]" "[]" True]
      in_view_vertex_classified [OF four canvas, of "scene_depth_map 5" "[]" "[]" "[]" True]
      in_view_vertex_classified [OF five canvas, of "scene_depth_map 5" "[]" "[]" "[]" True]
    unfolding draw by (simp add: scene_depth_map_def)
qed

section \<open>Properties of the rounded operations\<close>

lemma float_mod_math_pi: "float_mod x math_pi = Inr (float_rem x math_pi)"
  by (simp add: float_mod_def math_pi_def)

lemma round_half_even_near: "\<bar>of_int (round_half_even t) - t\<bar> \<le> 1 / 2"
  unfolding round_half_even_def Let_def by (auto simp: abs_le_iff; linarith)

lemma round_half_even_between:
  assumes "of_int a \<le> t" and "t \<le> of_int b"
  shows "a \<le> round_half_even t \<and> round_half_even t \<le> b"
proof -
  have "\<bar>of_int (round_half_even t) - t\<bar> \<le> 1 / 2" by (rule round_half_even_near)
  then have "of_int a - 1 / 2 \<le> (of_int (round_half_even t) :: real)"
    and "(of_int (round_half_even t) :: real) \<le> of_int b + 1 / 2"
    using assms by linarith+
  then have "of_int a - 1 < (of_int (round_half_even t) :: real)"
    and "(of_int (round_half_even t) :: real) < of_int b + 1" by linarith+
  then have "a - 1 < round_half_even t" and "round_half_even t < b + 1"
    by linarith+
  then show ?thesis by simp
qed

lemma ilog2_below_4:
  assumes "0 < s" and "s < 4"
  shows "ilog2 s \<le> 1"
proof (cases "1 \<le> s")
  case True
  have small: "bitlen 1 = 1" "bitlen 2 = 2" "bitlen 3 = 2"
    by (simp_all add: compute_bitlen)
  have "1 \<le> \<lfloor>s\<rfloor>" and "\<lfloor>s\<rfloor> < 4" using True assms by (simp_all add: le_floor_iff floor_less_iff)
  then have "\<lfloor>s\<rfloor> = 1 \<or> \<lfloor>s\<rfloor> = 2 \<or> \<lfloor>s\<rfloor> = 3" by linarith
  then have "bitlen \<lfloor>s\<rfloor> \<le> 2" using small by auto
  then show ?thesis using True by (simp add: ilog2_def)
next
  case False
  then show ?thesis using bitlen_nonneg [of "\<lceil>1 / s\<rceil> - 1"] by (simp add: ilog2_def)
qed


lemma fmod_range:
  assumes "0 < y"
  shows "\<bar>fmod x y\<bar> < y" and "0 \<le> x \<Longrightarrow> 0 \<le> fmod x y" and "x \<le> 0 \<Longrightarrow> fmod x y \<le> 0"
proof -
  define q where "q = x / y"
  have x: "x = q * y" unfolding q_def using assms by simp
  have fl: "of_int \<lfloor>q\<rfloor> \<le> q" "q < of_int \<lfloor>q\<rfloor> + 1" by linarith+
  have ce: "q \<le> of_int \<lceil>q\<rceil>" "of_int \<lceil>q\<rceil> - 1 < q" by linarith+
  show "\<bar>fmod x y\<bar> < y"
  proof (cases "0 \<le> q")
    case True
    have "fmod x y = (q - of_int \<lfloor>q\<rfloor>) * y"
      using True unfolding fmod_def q_def [symmetric] x by (simp add: algebra_simps)
    moreover have "0 \<le> q - of_int \<lfloor>q\<rfloor>" "q - of_int \<lfloor>q\<rfloor> < 1" using fl by linarith+
    ultimately show ?thesis using assms by (simp add: abs_mult)
  next
    case False
    have "fmod x y = (q - of_int \<lceil>q\<rceil>) * y"
      using False unfolding fmod_def q_def [symmetric] x by (simp add: algebra_simps)
    moreover have "q - of_int \<lceil>q\<rceil> \<le> 0" "- 1 < q - of_int \<lceil>q\<rceil>" using ce by linarith+
    ultimately show ?thesis using assms by (simp add: abs_mult)
  qed
  show "0 \<le> fmod x y" if "0 \<le> x"
  proof -
    have "0 \<le> q" unfolding q_def using that assms by simp
    then have "fmod x y = (q - of_int \<lfloor>q\<rfloor>) * y"
      unfolding fmod_def q_def [symmetric] x by (simp add: algebra_simps)
    moreover have "0 \<le> q - of_int \<lfloor>q\<rfloor>" using fl by linarith
    ultimately show ?thesis using assms by simp
  qed
  show "fmod x y \<le> 0" if "x \<le> 0"
  proof (cases "q = 0")
    case True
    then show ?thesis unfolding fmod_def q_def [symmetric] x by simp
  next
    case False
    then have "q < 0" unfolding q_def using that assms by (simp add: divide_less_0_iff) 
    then have "fmod x y = (q - of_int \<lceil>q\<rceil>) * y"
      unfolding fmod_def q_def [symmetric] x by (simp add: algebra_simps)
    moreover have "q - of_int \<lceil>q\<rceil> \<le> 0" using ce by linarith
    ultimately show ?thesis using assms by (simp add: mult_le_0_iff)
  qed
qed

lemma round_double_below_pi:
  assumes "0 < s" and "s < math_pi"
  shows "0 \<le> round_double s \<and> round_double s \<le> math_pi"
proof -
  define e where "e = max (ilog2 \<bar>s\<bar> - 52) (- 1074)"
  have "math_pi < 4" by (simp add: math_pi_def)
  then have "ilog2 \<bar>s\<bar> \<le> 1" using assms ilog2_below_4 [of s] by simp
  then have e: "e \<le> - 51" unfolding e_def by simp
  define k :: int where "k = 884279719003555 * 2 ^ nat (- 48 - e)"
  have p: "(2::real) powi e > 0" by simp
  have "(2::real) powi (- 48) = 2 powi (- 48 - e) * 2 powi e"
    by (simp add: power_int_add [symmetric])
  also have "(2::real) powi (- 48 - e) = 2 ^ nat (- 48 - e)"
    using e by (simp add: power_int_def)
  finally have "(2::real) powi (- 48) = 2 ^ nat (- 48 - e) * 2 powi e" .
  moreover have "math_pi = 884279719003555 * 2 powi (- 48)"
    by (simp add: math_pi_def power_int_def field_simps)
  ultimately have grid: "math_pi = of_int k * 2 powi e"
    unfolding k_def by simp
  have "of_int 0 \<le> s / 2 powi e" using assms p by simp
  moreover have "s / 2 powi e \<le> of_int k"
    using assms(2) p unfolding grid by (simp add: divide_le_eq)
  ultimately have "0 \<le> round_half_even (s / 2 powi e) \<and> round_half_even (s / 2 powi e) \<le> k"
    by (rule round_half_even_between)
  then have "0 \<le> of_int (round_half_even (s / 2 powi e)) * (2::real) powi e"
    and "of_int (round_half_even (s / 2 powi e)) * (2::real) powi e \<le> of_int k * 2 powi e"
    using p by (simp_all add: mult_right_mono)
  moreover have "round_double s = of_int (round_half_even (s / 2 powi e)) * 2 powi e"
    using assms(1) unfolding round_double_def e_def Let_def by simp
  ultimately show ?thesis
    unfolding grid by simp
qed

lemma float_rem_range:
  "0 \<le> float_rem x math_pi \<and> float_rem x math_pi \<le> math_pi"
proof -
  have pos: "0 < math_pi" by (simp add: math_pi_def)
  note range = fmod_range [OF pos, of x]
  define m where "m = fmod x math_pi"
  have m: "\<bar>m\<bar> < math_pi" unfolding m_def by (rule range(1))
  show ?thesis
  proof (cases "m < 0")
    case True
    then have "0 < m + math_pi" and "m + math_pi < math_pi" using m by linarith+
    then have "0 \<le> round_double (m + math_pi) \<and> round_double (m + math_pi) \<le> math_pi"
      by (rule round_double_below_pi)
    then show ?thesis
      using True pos unfolding float_rem_def m_def [symmetric] Let_def by simp
  next
    case False
    then show ?thesis
      using m pos unfolding float_rem_def m_def [symmetric] Let_def by auto
  qed
qed

lemma float_rem_reduced:
  "\<exists>k::int. float_rem x y = x - of_int k * y \<or> float_rem x y = round_double (x - of_int k * y)"
proof -
  define n :: int where "n = (if 0 \<le> x / y then \<lfloor>x / y\<rfloor> else \<lceil>x / y\<rceil>)"
  have m: "fmod x y = x - of_int n * y"
    by (simp add: fmod_def n_def mult.commute)
  show ?thesis
  proof (cases "fmod x y \<noteq> 0 \<and> (y < 0) \<noteq> (fmod x y < 0)")
    case True
    have shifted: "x - of_int n * y + y = x - of_int (n - 1) * y"
      by (simp add: algebra_simps)
    have "float_rem x y = round_double (x - of_int n * y + y)"
      using True by (simp add: float_rem_def Let_def m)
    then have "float_rem x y = round_double (x - of_int (n - 1) * y)"
      by (simp only: shifted)
    then show ?thesis by blast
  next
    case False
    then have "float_rem x y = x - of_int n * y"
      by (auto simp add: float_rem_def Let_def m)
    then show ?thesis by blast
  qed
qed

section \<open>Properties of the data point\<close>

lemma create_kitti_datapoint_unclassified:
  assumes "transforms_from_agent agent = None"
  shows "create_kitti_datapoint cu bbs agent camera cam_calibration img depth_map
           player_transform max_render_depth_arg logged =
         Inr (Tuple2 img None, depth_map,
              logged @ [Warning ''Could not get bounding box for agent. Object type is None''])"
  using assms by (simp add: create_kitti_datapoint_def)

lemma create_kitti_datapoint_geometry_error:
  assumes "transforms_from_agent agent = Some tr"
    and "get_bounding_box_and_refpoint bbs agent camera cam_calibration = Inl e"
  shows "create_kitti_datapoint cu bbs agent camera cam_calibration img depth_map
           player_transform max_render_depth_arg logged = Inl e"
  using assms by (cases tr) (simp add: create_kitti_datapoint_def)

lemma create_kitti_datapoint_classified:
  assumes "transforms_from_agent agent = Some (obj_type, agent_transform, bbox_transform, ext, loc)"
    and "get_bounding_box_and_refpoint bbs agent camera cam_calibration =
           Inr ((camera_bbox, camera_refpoint), (sensor_bbox, sensor_refpoint))"
    and "calculate_occlusion_stats cu img camera_bbox depth_map
           (case max_render_depth_arg of None \<Rightarrow> 70 | Some m \<Rightarrow> m) False =
         (img', depth_map', num_visible, num_outside)"
  shows "create_kitti_datapoint cu bbs agent camera cam_calibration img depth_map
           player_transform max_render_depth_arg logged =
         (if 4 \<le> num_visible \<and> num_outside < 4 then
            (case calc_projected_2d_bbox camera_bbox of
               Inl e \<Rightarrow> Inl e
             | Inr bbox_2d \<Rightarrow>
                 if calc_bbox2d_area bbox_2d < 100 then
                   Inr (Tuple3 img None None, depth_map,
                        logged @ [Info ''Filtered out bbox with too low area {}''
                                    (calc_bbox2d_area bbox_2d)])
                 else
                   Inr (Tuple3 img
                          (Some \<lparr>kitti_type = Some obj_type, kitti_bbox = Some bbox_2d,
                                 kitti_dimensions = Some ext,
                                 kitti_location = Some sensor_refpoint,
                                 kitti_rotation_y =
                                   Some (float_rem (get_relative_rotation_y agent player_transform)
                                           math_pi)\<rparr>)
                          (Some camera_bbox),
                        depth_map, logged))
          else Inr (Tuple3 img None None, depth_map, logged))"
proof -
  obtain nv no where
    "calculate_occlusion_stats cu img camera_bbox depth_map
       (case max_render_depth_arg of None \<Rightarrow> 70 | Some m \<Rightarrow> m) False = (img, depth_map, nv, no)"
    using stats_no_draw [of cu img camera_bbox depth_map
        "case max_render_depth_arg of None \<Rightarrow> 70 | Some m \<Rightarrow> m"] by auto
  with assms(3) have same: "img' = img" "depth_map' = depth_map" by simp_all
  show ?thesis
    using assms unfolding same
    by (simp add: create_kitti_datapoint_def vertices_gate_def
        MIN_VISIBLE_VERTICES_FOR_RENDER_def MIN_BBOX_AREA_IN_PX_def float_mod_math_pi
        new_KittiDescriptor_def set_type_def set_bbox_def set_3d_object_dimensions_def
        set_3d_object_location_def set_rotation_y_def Let_def
        split: sum.splits)
qed

lemma gate_needs_points:
  assumes "calculate_occlusion_stats cu img ps dm m dv = (img', dm', nv, no)" and "4 \<le> nv"
  shows "ps \<noteq> []"
proof
  assume "ps = []"
  then have "nv = 0" using assms(1) by (simp add: calculate_occlusion_stats_def)
  then show False using assms(2) by simp
qed

lemma calc_projected_2d_bbox_total:
  assumes "ps \<noteq> []"
  shows "\<exists>bbox_2d. calc_projected_2d_bbox ps = Inr bbox_2d"
  using assms by (cases ps) (simp_all add: Let_def)

lemma create_kitti_datapoint_label:
  assumes "create_kitti_datapoint cu bbs agent camera cam_calibration img depth_map
             player_transform max_render_depth_arg logged = Inr (r, depth_map', logged')"
    and "returned_label r = Some datapoint"
  obtains obj_type agent_transform bbox_transform ext loc camera_bbox camera_refpoint
    sensor_bbox sensor_refpoint num_visible num_outside bbox_2d
  where "transforms_from_agent agent =
           Some (obj_type, agent_transform, bbox_transform, ext, loc)"
    and "get_bounding_box_and_refpoint bbs agent camera cam_calibration =
           Inr ((camera_bbox, camera_refpoint), (sensor_bbox, sensor_refpoint))"
    and "calculate_occlusion_stats cu img camera_bbox depth_map
           (case max_render_depth_arg of None \<Rightarrow> 70 | Some m \<Rightarrow> m) False =
         (img, depth_map, num_visible, num_outside)"
    and "4 \<le> num_visible" and "num_outside < 4"
    and "calc_projected_2d_bbox camera_bbox = Inr bbox_2d"
    and "100 \<le> calc_bbox2d_area bbox_2d"
    and "r = Tuple3 img (Some datapoint) (Some camera_bbox)"
    and "depth_map' = depth_map" and "logged' = logged"
    and "datapoint =
           \<lparr>kitti_type = Some obj_type, kitti_bbox = Some bbox_2d,
            kitti_dimensions = Some ext, kitti_location = Some sensor_refpoint,
            kitti_rotation_y =
              Some (float_rem (get_relative_rotation_y agent player_transform) math_pi)\<rparr>"
proof (cases "transforms_from_agent agent")
  case None
  have "create_kitti_datapoint cu bbs agent camera cam_calibration img depth_map
          player_transform max_render_depth_arg logged =
        Inr (Tuple2 img None, depth_map,
             logged @ [Warning ''Could not get bounding box for agent. Object type is None''])"
    by (rule create_kitti_datapoint_unclassified [OF None])
  with assms show ?thesis by auto
next
  case (Some tr)
  obtain obj_type agent_transform bbox_transform ext loc where
    tr: "tr = (obj_type, agent_transform, bbox_transform, ext, loc)"
    by (cases tr) auto
  show ?thesis
  proof (cases "get_bounding_box_and_refpoint bbs agent camera cam_calibration")
    case (Inl e)
    have "create_kitti_datapoint cu bbs agent camera cam_calibration img depth_map
            player_transform max_render_depth_arg logged = Inl e"
      by (rule create_kitti_datapoint_geometry_error [OF Some Inl])
    with assms show ?thesis by simp
  next
    case (Inr g)
    obtain camera_bbox camera_refpoint sensor_bbox sensor_refpoint where
      g: "g = ((camera_bbox, camera_refpoint), (sensor_bbox, sensor_refpoint))"
      by (cases g) auto
    obtain nv no where
      stats: "calculate_occlusion_stats cu img camera_bbox depth_map
                (case max_render_depth_arg of None \<Rightarrow> 70 | Some m \<Rightarrow> m) False =
              (img, depth_map, nv, no)"
      using stats_no_draw [of cu img camera_bbox depth_map
          "case max_render_depth_arg of None \<Rightarrow> 70 | Some m \<Rightarrow> m"] by auto
    note eq = create_kitti_datapoint_classified
      [OF Some [unfolded tr] Inr [unfolded g] stats, of player_transform logged]
    have gate: "4 \<le> nv \<and> no < 4"
      using assms unfolding eq by (auto split: if_splits)
    then obtain bbox_2d where box: "calc_projected_2d_bbox camera_bbox = Inr bbox_2d"
      using assms unfolding eq by (auto split: if_splits sum.splits)
    have area: "100 \<le> calc_bbox2d_area bbox_2d"
      using assms gate unfolding eq box by (auto split: if_splits)
    have result:
      "Inr (r, depth_map', logged') =
       Inr (Tuple3 img
              (Some \<lparr>kitti_type = Some obj_type, kitti_bbox = Some bbox_2d,
                     kitti_dimensions = Some ext, kitti_location = Some sensor_refpoint,
                     kitti_rotation_y =
                       Some (float_rem (get_relative_rotation_y agent player_transform)
                               math_pi)\<rparr>)
              (Some camera_bbox), depth_map, logged)"
      using assms(1) gate area unfolding eq box by simp
    show ?thesis
    proof (rule that [OF Some [unfolded tr] Inr [unfolded g] stats _ _ box area])
      show "4 \<le> nv" and "no < 4" using gate by simp_all
      show "r = Tuple3 img (Some datapoint) (Some camera_bbox)"
        using result assms(2) by auto
      show "depth_map' = depth_map" and "logged' = logged" using result by simp_all
      show "datapoint =
              \<lparr>kitti_type = Some obj_type, kitti_bbox = Some bbox_2d,
               kitti_dimensions = Some ext, kitti_location = Some sensor_refpoint,
               kitti_rotation_y =
                 Some (float_rem (get_relative_rotation_y agent player_transform)
                         math_pi)\<rparr>"
        using result assms(2) by auto
    qed
  qed
qed

lemma create_kitti_datapoint_outcomes:
  assumes "transforms_from_agent agent = Some tr"
  shows "(\<exists>e. get_bounding_box_and_refpoint bbs agent camera cam_calibration = Inl e \<and>
              create_kitti_datapoint cu bbs agent camera cam_calibration img depth_map
                player_transform max_render_depth_arg logged = Inl e) \<or>
         (\<exists>label box logged'.
              create_kitti_datapoint cu bbs agent camera cam_calibration img depth_map
                player_transform max_render_depth_arg logged =
              Inr (Tuple3 img label box, depth_map, logged') \<and>
              (label = None \<longleftrightarrow> box = None))"
proof -
  obtain obj_type agent_transform bbox_transform ext loc where
    tr: "tr = (obj_type, agent_transform, bbox_transform, ext, loc)"
    by (cases tr) auto
  show ?thesis
  proof (cases "get_bounding_box_and_refpoint bbs agent camera cam_calibration")
    case (Inl e)
    have "create_kitti_datapoint cu bbs agent camera cam_calibration img depth_map
            player_transform max_render_depth_arg logged = Inl e"
      by (rule create_kitti_datapoint_geometry_error [OF assms Inl])
    with Inl show ?thesis by simp
  next
    case (Inr g)
    obtain camera_bbox camera_refpoint sensor_bbox sensor_refpoint where
      g: "g = ((camera_bbox, camera_refpoint), (sensor_bbox, sensor_refpoint))"
      by (cases g) auto
    obtain nv no where
      stats: "calculate_occlusion_stats cu img camera_bbox depth_map
                (case max_render_depth_arg of None \<Rightarrow> 70 | Some m \<Rightarrow> m) False =
              (img, depth_map, nv, no)"
      using stats_no_draw [of cu img camera_bbox depth_map
          "case max_render_depth_arg of None \<Rightarrow> 70 | Some m \<Rightarrow> m"] by auto
    note eq = create_kitti_datapoint_classified
      [OF assms [unfolded tr] Inr [unfolded g] stats, of player_transform logged]
    show ?thesis
    proof (cases "4 \<le> nv \<and> no < 4")
      case True
      then have "camera_bbox \<noteq> []" using gate_needs_points [OF stats] by simp
      then obtain bbox_2d where "calc_projected_2d_bbox camera_bbox = Inr bbox_2d"
        using calc_projected_2d_bbox_total by blast
      then show ?thesis unfolding eq using True by simp
    next
      case False
      then show ?thesis unfolding eq by auto
    qed
  qed
qed

lemma create_kitti_datapoint_frame:
  assumes "create_kitti_datapoint cu bbs agent camera cam_calibration img depth_map
             player_transform max_render_depth_arg logged = Inr (r, depth_map', logged')"
  shows "returned_image r = img \<and> depth_map' = depth_map"
proof (cases "transforms_from_agent agent")
  case None
  have "create_kitti_datapoint cu bbs agent camera cam_calibration img depth_map
          player_transform max_render_depth_arg logged =
        Inr (Tuple2 img None, depth_map,
             logged @ [Warning ''Could not get bounding box for agent. Object type is None''])"
    by (rule create_kitti_datapoint_unclassified [OF None])
  with assms show ?thesis by auto
next
  case (Some tr)
  from create_kitti_datapoint_outcomes [OF Some, of bbs camera cam_calibration cu img
      depth_map player_transform max_render_depth_arg logged] assms
  show ?thesis by auto
qed

lemma create_kitti_datapoint_log:
  "(case create_kitti_datapoint cu bbs agent camera cam_calibration img depth_map
           player_transform max_render_depth_arg logged of
      Inl e \<Rightarrow> Inl e | Inr (r, d, l) \<Rightarrow> Inr (r, d)) =
   (case create_kitti_datapoint cu bbs agent camera cam_calibration img depth_map
           player_transform max_render_depth_arg logged2 of
      Inl e \<Rightarrow> Inl e | Inr (r, d, l) \<Rightarrow> Inr (r, d))"
proof (cases "transforms_from_agent agent")
  case None
  show ?thesis
    unfolding create_kitti_datapoint_unclassified [OF None] by simp
next
  case (Some tr)
  obtain obj_type agent_transform bbox_transform ext loc where
    tr: "tr = (obj_type, agent_transform, bbox_transform, ext, loc)"
    by (cases tr) auto
  show ?thesis
  proof (cases "get_bounding_box_and_refpoint bbs agent camera cam_calibration")
    case (Inl e)
    show ?thesis
      unfolding create_kitti_datapoint_geometry_error [OF Some Inl] by simp
  next
    case (Inr g)
    obtain camera_bbox camera_refpoint sensor_bbox sensor_refpoint where
      g: "g = ((camera_bbox, camera_refpoint), (sensor_bbox, sensor_refpoint))"
      by (cases g) auto
    obtain nv no where
      stats: "calculate_occlusion_stats cu img camera_bbox depth_map
                (case max_render_depth_arg of None \<Rightarrow> 70 | Some m \<Rightarrow> m) False =
              (img, depth_map, nv, no)"
      using stats_no_draw [of cu img camera_bbox depth_map
          "case max_render_depth_arg of None \<Rightarrow> 70 | Some m \<Rightarrow> m"] by auto
    show ?thesis
      unfolding create_kitti_datapoint_classified [OF Some [unfolded tr] Inr [unfolded g] stats]
      by (simp split: sum.splits)
  qed
qed

lemma create_kitti_datapoint_image:
  "(case create_kitti_datapoint cu bbs agent camera cam_calibration img depth_map
           player_transform max_render_depth_arg logged of
      Inl e \<Rightarrow> Inl e | Inr (r, d, l) \<Rightarrow> Inr (returned_label r, returned_box r)) =
   (case create_kitti_datapoint cu bbs agent camera cam_calibration img2 depth_map
           player_transform max_render_depth_arg logged2 of
      Inl e \<Rightarrow> Inl e | Inr (r, d, l) \<Rightarrow> Inr (returned_label r, returned_box r))"
proof (cases "transforms_from_agent agent")
  case None
  show ?thesis
    unfolding create_kitti_datapoint_unclassified [OF None] by simp
next
  case (Some tr)
  obtain obj_type agent_transform bbox_transform ext loc where
    tr: "tr = (obj_type, agent_transform, bbox_transform, ext, loc)"
    by (cases tr) auto
  show ?thesis
  proof (cases "get_bounding_box_and_refpoint bbs agent camera cam_calibration")
    case (Inl e)
    show ?thesis
      unfolding create_kitti_datapoint_geometry_error [OF Some Inl] by simp
  next
    case (Inr g)
    obtain camera_bbox camera_refpoint sensor_bbox sensor_refpoint where
      g: "g = ((camera_bbox, camera_refpoint), (sensor_bbox, sensor_refpoint))"
      by (cases g) auto
    obtain nv no where
      stats: "calculate_occlusion_stats cu img camera_bbox depth_map
                (case max_render_depth_arg of None \<Rightarrow> 70 | Some m \<Rightarrow> m) False =
              (img, depth_map, nv, no)"
      using stats_no_draw [of cu img camera_bbox depth_map
          "case max_render_depth_arg of None \<Rightarrow> 70 | Some m \<Rightarrow> m"] by auto
    obtain nv2 no2 where
      stats2: "calculate_occlusion_stats cu img2 camera_bbox depth_map
                 (case max_render_depth_arg of None \<Rightarrow> 70 | Some m \<Rightarrow> m) False =
               (img2, depth_map, nv2, no2)"
      using stats_no_draw [of cu img2 camera_bbox depth_map
          "case max_render_depth_arg of None \<Rightarrow> 70 | Some m \<Rightarrow> m"] by auto
    have "(nv, no) = (nv2, no2)"
      using loop_counts [of cu "case max_render_depth_arg of None \<Rightarrow> 70 | Some m \<Rightarrow> m"
          False camera_bbox img depth_map 0 0 False img2] stats stats2
      by (simp add: calculate_occlusion_stats_def)
    then have same: "nv2 = nv" "no2 = no" by simp_all
    show ?thesis
      unfolding create_kitti_datapoint_classified [OF Some [unfolded tr] Inr [unfolded g] stats]
        create_kitti_datapoint_classified
          [OF Some [unfolded tr] Inr [unfolded g] stats2 [unfolded same]]
      by (simp split: sum.splits)
  qed
qed

section \<open>The test scene, evaluated\<close>

lemma scene_vehicle:
  "transforms_from_agent (scene_agent ''vehicle.tesla.model3'') =
     Some (''Car'',
           \<lparr>location = (3 / 2, 0, 0), rotation = \<lparr>pitch = 0, yaw = 10, roll = 0\<rparr>\<rparr>,
           \<lparr>location = (0, 0, 0), rotation = \<lparr>pitch = 0, yaw = 0, roll = 0\<rparr>\<rparr>,
           (1 / 2, 1, 1), (3 / 2, 0, 0))"
  by (simp add: transforms_from_agent_def scene_agent_def sublist_code Transform_def)

lemma scene_prop:
  "transforms_from_agent (scene_agent ''static.prop.box'') = None"
  by (simp add: transforms_from_agent_def scene_agent_def sublist_code)

lemma scene_geometry:
  "get_bounding_box_and_refpoint scene_boxes (scene_agent tag) () (scene_calibration fy) =
     Inr ((scene_camera_bbox fy, (50, 50, 3 / 2)),
          ([(2, 1, - 1), (1, 1, - 1), (1, - 1, - 1), (2, - 1, - 1), (2, 1, 1), (1, 1, 1),
            (1, - 1, 1), (2, - 1, 1)], (3 / 2, 0, 0)))"
  by (simp add: get_bounding_box_and_refpoint_def scene_boxes_def scene_agent_def
      scene_calibration_def np_dot_def dot3_def scene_camera_bbox_def)

lemma scene_stats:
  assumes "0 \<le> fy" and "fy < 50" and "2 \<le> stored"
  shows "calculate_occlusion_stats scene_camera_utils img (scene_camera_bbox fy)
           (scene_depth_map stored) 70 False = (img, scene_depth_map stored, 8, 0)"
  using assms
  by (simp add: calculate_occlusion_stats_def scene_camera_bbox_def scene_camera_utils_def
      scene_depth_map_def point_in_canvas_def point_is_occluded_def Let_def)

lemma scene_stats_occluded:
  assumes "0 \<le> fy" and "fy < 50" and "stored < 1"
  shows "calculate_occlusion_stats scene_camera_utils img (scene_camera_bbox fy)
           (scene_depth_map stored) 70 False = (img, scene_depth_map stored, 0, 0)"
  using assms
  by (simp add: calculate_occlusion_stats_def scene_camera_bbox_def scene_camera_utils_def
      scene_depth_map_def point_in_canvas_def point_is_occluded_def Let_def)

lemma scene_bbox:
  assumes "0 \<le> fy"
  shows "calc_projected_2d_bbox (scene_camera_bbox fy) = Inr (45, 50 - fy, 55, 50 + fy)"
  using assms
  by (simp add: scene_camera_bbox_def Let_def min_def max_def)

lemma scene_area:
  "calc_bbox2d_area (45, 50 - fy, 55, 50 + fy) = 20 * fy"
  by (simp add: calc_bbox2d_area_def)

lemmas float_eval =
  round_double_def ilog2_def compute_bitlen round_half_even_def Let_def fmod_def float_rem_def

lemma degToRad_value: "degToRad = 5030569068109113 / 2 ^ 58"
  by (simp add: degToRad_def math_pi_def float_eval)

lemma heading_10_370: "float_rem (radians (round_double (10 - 370))) math_pi = 0"
proof -
  have difference: "round_double (10 - 370) = - 360"
    by (simp add: float_eval)
  have raw: "radians (- 360) = - 2 * math_pi"
    unfolding radians_def degToRad_value by (simp add: float_eval math_pi_def)
  show ?thesis
    unfolding difference raw by (simp add: float_rem_def fmod_def math_pi_def)
qed

lemma heading_0_1e15:
  "float_rem (radians (round_double (0 - 2535301200456459 / 2 ^ 101))) math_pi = math_pi"
proof -
  have difference:
    "round_double (0 - 2535301200456459 / 2 ^ 101) = - (2535301200456459 / 2 ^ 101)"
    by (simp add: float_eval)
  have raw: "radians (- (2535301200456459 / 2 ^ 101)) = - (5663917245149437 / 2 ^ 108)"
    unfolding radians_def degToRad_value by (simp add: float_eval)
  show ?thesis
    unfolding difference raw by (simp add: float_eval math_pi_def)
qed

lemma heading_0_1980:
  "float_rem (radians (round_double (0 - 1980))) math_pi = 442139859501777 / 2 ^ 47"
proof -
  have difference: "round_double (0 - 1980) = - 1980"
    by (simp add: float_eval)
  have raw: "radians (- 1980) = - (4863538454519553 / 2 ^ 47)"
    unfolding radians_def degToRad_value by (simp add: float_eval)
  show ?thesis
    unfolding difference raw by (simp add: float_eval math_pi_def)
qed

lemma scene_heading:
  "float_rem (get_relative_rotation_y (scene_agent tag) scene_player_transform) math_pi = 0"
proof -
  have "get_relative_rotation_y (scene_agent tag) scene_player_transform =
        radians (round_double (10 - 370))"
    by (simp add: get_relative_rotation_y_def scene_agent_def scene_player_transform_def)
  then show ?thesis by (simp only: heading_10_370)
qed

lemma scene_datapoint:
  assumes "0 \<le> fy" and "fy < 50" and "2 \<le> stored"
  shows "create_kitti_datapoint scene_camera_utils scene_boxes
           (scene_agent ''vehicle.tesla.model3'') () (scene_calibration fy) img
           (scene_depth_map stored) scene_player_transform None logged =
         (if 20 * fy < 100 then
            Inr (Tuple3 img None None, scene_depth_map stored,
                 logged @ [Info ''Filtered out bbox with too low area {}'' (20 * fy)])
          else
            Inr (Tuple3 img
                   (Some \<lparr>kitti_type = Some ''Car'',
                          kitti_bbox = Some (45, 50 - fy, 55, 50 + fy),
                          kitti_dimensions = Some (1 / 2, 1, 1),
                          kitti_location = Some (3 / 2, 0, 0),
                          kitti_rotation_y = Some 0\<rparr>)
                   (Some (scene_camera_bbox fy)),
                 scene_depth_map stored, logged))"
proof -
  have stats: "calculate_occlusion_stats scene_camera_utils img (scene_camera_bbox fy)
                 (scene_depth_map stored) (case None of None \<Rightarrow> 70 | Some m \<Rightarrow> m) False =
               (img, scene_depth_map stored, 8, 0)"
    using scene_stats [OF assms] by simp
  show ?thesis
    unfolding create_kitti_datapoint_classified [OF scene_vehicle scene_geometry stats]
    by (simp add: scene_bbox [OF assms(1)] scene_area scene_heading)
qed

lemma scene_yaw_vehicle:
  "transforms_from_agent (scene_agent_yaw y) =
     Some (''Car'',
           \<lparr>location = (3 / 2, 0, 0), rotation = \<lparr>pitch = 0, yaw = y, roll = 0\<rparr>\<rparr>,
           \<lparr>location = (0, 0, 0), rotation = \<lparr>pitch = 0, yaw = 0, roll = 0\<rparr>\<rparr>,
           (1 / 2, 1, 1), (3 / 2, 0, 0))"
  by (simp add: transforms_from_agent_def scene_agent_yaw_def sublist_code Transform_def)

lemma scene_yaw_geometry:
  "get_bounding_box_and_refpoint scene_boxes (scene_agent_yaw y) () (scene_calibration fy) =
     Inr ((scene_camera_bbox fy, (50, 50, 3 / 2)),
          ([(2, 1, - 1), (1, 1, - 1), (1, - 1, - 1), (2, - 1, - 1), (2, 1, 1), (1, 1, 1),
            (1, - 1, 1), (2, - 1, 1)], (3 / 2, 0, 0)))"
  by (simp add: get_bounding_box_and_refpoint_def scene_boxes_def scene_agent_yaw_def
      scene_calibration_def np_dot_def dot3_def scene_camera_bbox_def)

lemma scene_yaw_datapoint:
  "create_kitti_datapoint scene_camera_utils scene_boxes (scene_agent_yaw a) ()
     (scene_calibration 5) img (scene_depth_map 1000) (scene_player_yaw r) None logged =
   Inr (Tuple3 img
          (Some \<lparr>kitti_type = Some ''Car'', kitti_bbox = Some (45, 45, 55, 55),
                 kitti_dimensions = Some (1 / 2, 1, 1), kitti_location = Some (3 / 2, 0, 0),
                 kitti_rotation_y =
                   Some (float_rem (radians (round_double (a - r))) math_pi)\<rparr>)
          (Some (scene_camera_bbox 5)),
        scene_depth_map 1000, logged)"
proof -
  have stats: "calculate_occlusion_stats scene_camera_utils img (scene_camera_bbox 5)
                 (scene_depth_map 1000) (case None of None \<Rightarrow> 70 | Some m \<Rightarrow> m) False =
               (img, scene_depth_map 1000, 8, 0)"
    using scene_stats [of 5 1000 img] by simp
  have raw: "get_relative_rotation_y (scene_agent_yaw a) (scene_player_yaw r) =
             radians (round_double (a - r))"
    by (simp add: get_relative_rotation_y_def scene_agent_yaw_def scene_player_yaw_def)
  have box: "calc_projected_2d_bbox (scene_camera_bbox 5) = Inr (45, 45, 55, 55)"
    using scene_bbox [of 5] by simp
  have area: "calc_bbox2d_area (45, 45, 55, 55) = 100"
    by (simp add: calc_bbox2d_area_def)
  show ?thesis
    unfolding create_kitti_datapoint_classified [OF scene_yaw_vehicle scene_yaw_geometry stats]
      box raw
    by (simp add: area)
qed

section \<open>The claims about the data point\<close>

text \<open>
  Claim C1, as stated, fails: in the test scene with vertical focal length 5 all eight
  corners are visible, the projected box is \<open>(45, 45, 55, 55)\<close>, its area is exactly 100,
  and the call returns a label.
\<close>

theorem area_of_exactly_100_accepted:
  "create_kitti_datapoint scene_camera_utils scene_boxes
     (scene_agent ''vehicle.tesla.model3'') () (scene_calibration 5) []
     (scene_depth_map 1000) scene_player_transform None [] =
   Inr (Tuple3 []
          (Some \<lparr>kitti_type = Some ''Car'', kitti_bbox = Some (45, 45, 55, 55),
                 kitti_dimensions = Some (1 / 2, 1, 1), kitti_location = Some (3 / 2, 0, 0),
                 kitti_rotation_y = Some 0\<rparr>)
          (Some (scene_camera_bbox 5)),
        scene_depth_map 1000, []) \<and>
   calc_projected_2d_bbox (scene_camera_bbox 5) = Inr (45, 45, 55, 55) \<and>
   calc_bbox2d_area (45, 45, 55, 55) = 100"
proof -
  have "create_kitti_datapoint scene_camera_utils scene_boxes
          (scene_agent ''vehicle.tesla.model3'') () (scene_calibration 5) []
          (scene_depth_map 1000) scene_player_transform None [] =
        Inr (Tuple3 []
               (Some \<lparr>kitti_type = Some ''Car'', kitti_bbox = Some (45, 45, 55, 55),
                      kitti_dimensions = Some (1 / 2, 1, 1),
                      kitti_location = Some (3 / 2, 0, 0), kitti_rotation_y = Some 0\<rparr>)
               (Some (scene_camera_bbox 5)),
             scene_depth_map 1000, [])"
    using scene_datapoint [of 5 1000 "[]" "[]"] by simp
  moreover have "calc_projected_2d_bbox (scene_camera_bbox 5) = Inr (45, 45, 55, 55)"
    using scene_bbox [of 5] by simp
  moreover have "calc_bbox2d_area (45, 45, 55, 55) = 100"
    by (simp add: calc_bbox2d_area_def)
  ultimately show ?thesis by simp
qed

text \<open>
  Claim C1, amended. For every evaluation that reaches the area gate (the class is
  recognized, the geometry is computed, the visibility test passes), a box whose area is
  strictly below 100 is rejected: no label, no box, and one info record with the area.
  A box whose area is at least 100, exactly 100 included, is accepted with a label that
  carries the box.
\<close>

theorem area_gate:
  assumes "transforms_from_agent agent =
             Some (obj_type, agent_transform, bbox_transform, ext, loc)"
    and "get_bounding_box_and_refpoint bbs agent camera cam_calibration =
           Inr ((camera_bbox, camera_refpoint), (sensor_bbox, sensor_refpoint))"
    and "calculate_occlusion_stats cu img camera_bbox depth_map
           (case max_render_depth_arg of None \<Rightarrow> 70 | Some m \<Rightarrow> m) False =
         (img', depth_map', num_visible, num_outside)"
    and "4 \<le> num_visible" and "num_outside < 4"
    and "calc_projected_2d_bbox camera_bbox = Inr bbox_2d"
  shows "(calc_bbox2d_area bbox_2d < 100 \<longrightarrow>
            create_kitti_datapoint cu bbs agent camera cam_calibration img depth_map
              player_transform max_render_depth_arg logged =
            Inr (Tuple3 img None None, depth_map,
                 logged @ [Info ''Filtered out bbox with too low area {}''
                             (calc_bbox2d_area bbox_2d)])) \<and>
         (100 \<le> calc_bbox2d_area bbox_2d \<longrightarrow>
            (\<exists>datapoint.
               create_kitti_datapoint cu bbs agent camera cam_calibration img depth_map
                 player_transform max_render_depth_arg logged =
               Inr (Tuple3 img (Some datapoint) (Some camera_bbox), depth_map, logged) \<and>
               kitti_bbox datapoint = Some bbox_2d))"
  unfolding create_kitti_datapoint_classified [OF assms(1-3)]
  using assms(4-6) by simp

text \<open>
  The amended claim C1 in the test scene: the area 99.99 is rejected and the area 100.01
  is accepted.
\<close>

theorem area_gate_witness:
  "calc_bbox2d_area (45, 50 - 9999 / 2000, 55, 50 + 9999 / 2000) = 9999 / 100 \<and>
   create_kitti_datapoint scene_camera_utils scene_boxes
     (scene_agent ''vehicle.tesla.model3'') () (scene_calibration (9999 / 2000)) []
     (scene_depth_map 1000) scene_player_transform None [] =
   Inr (Tuple3 [] None None, scene_depth_map 1000,
        [Info ''Filtered out bbox with too low area {}'' (9999 / 100)]) \<and>
   calc_bbox2d_area (45, 50 - 10001 / 2000, 55, 50 + 10001 / 2000) = 10001 / 100 \<and>
   (\<exists>datapoint.
      create_kitti_datapoint scene_camera_utils scene_boxes
        (scene_agent ''vehicle.tesla.model3'') () (scene_calibration (10001 / 2000)) []
        (scene_depth_map 1000) scene_player_transform None [] =
      Inr (Tuple3 [] (Some datapoint) (Some (scene_camera_bbox (10001 / 2000))),
           scene_depth_map 1000, []) \<and>
      kitti_bbox datapoint = Some (45, 50 - 10001 / 2000, 55, 50 + 10001 / 2000))"
proof -
  have stats: "calculate_occlusion_stats scene_camera_utils [] (scene_camera_bbox fy)
                 (scene_depth_map 1000) (case None of None \<Rightarrow> 70 | Some m \<Rightarrow> m) False =
               ([], scene_depth_map 1000, 8, 0)" if "0 \<le> fy" and "fy < 50" for fy
    using scene_stats [OF that, of 1000 "[]"] by simp
  have eight: "(4::nat) \<le> 8" and none: "(0::nat) < 4" by simp_all
  have low: "calc_bbox2d_area (45, 50 - 9999 / 2000, 55, 50 + 9999 / 2000) = 9999 / 100"
    and high: "calc_bbox2d_area (45, 50 - 10001 / 2000, 55, 50 + 10001 / 2000) = 10001 / 100"
    by (simp_all add: calc_bbox2d_area_def)
  note rejected = area_gate [OF scene_vehicle scene_geometry stats eight none scene_bbox,
      of "9999 / 2000" scene_player_transform "[]"]
  note accepted = area_gate [OF scene_vehicle scene_geometry stats eight none scene_bbox,
      of "10001 / 2000" scene_player_transform "[]"]
  show ?thesis using rejected accepted unfolding low high by simp
qed

text \<open>
  Claim C2, as stated, fails in its consequence: raising the shared constant does not
  tighten the bound on the outside count. With the constant 3, four visible and three
  outside vertices are rejected, because 3 is not below 3; with the constant raised to 4
  they pass. Likewise five visible and four outside vertices are rejected by the
  constant 4 and pass the constant 5.
\<close>

theorem raised_constant_admits_more_outside:
  "vertices_gate 4 4 3 \<and> \<not> vertices_gate 3 4 3 \<and> vertices_gate 5 5 4 \<and> \<not> vertices_gate 4 5 4"
  by (simp add: vertices_gate_def)

text \<open>
  Claim C2, amended. For an agent with a recognized class whose geometry is computed, a
  label is returned only if \<open>num_visible \<ge> 4\<close> and \<open>num_outside < 4\<close>; if either
  condition fails the result is the tuple without label and without box. Both bounds
  are the one constant \<open>MIN_VISIBLE_VERTICES_FOR_RENDER = 4\<close>: the test with the constant
  \<open>m\<close> is \<open>num_visible \<ge> m\<close> and \<open>num_outside < m\<close>. Raising the constant therefore
  raises both bounds together: the requirement on the visible count becomes stricter,
  and the bound on the outside count becomes looser, so an agent that passed before and
  still has enough visible vertices passes again.
\<close>

theorem visibility_gate:
  assumes "transforms_from_agent agent =
             Some (obj_type, agent_transform, bbox_transform, ext, loc)"
    and "get_bounding_box_and_refpoint bbs agent camera cam_calibration =
           Inr ((camera_bbox, camera_refpoint), (sensor_bbox, sensor_refpoint))"
    and "calculate_occlusion_stats cu img camera_bbox depth_map
           (case max_render_depth_arg of None \<Rightarrow> 70 | Some m \<Rightarrow> m) False =
         (img', depth_map', num_visible, num_outside)"
  shows "((\<exists>r d l datapoint.
             create_kitti_datapoint cu bbs agent camera cam_calibration img depth_map
               player_transform max_render_depth_arg logged = Inr (r, d, l) \<and>
             returned_label r = Some datapoint) \<longrightarrow>
          4 \<le> num_visible \<and> num_outside < 4) \<and>
         (\<not> (4 \<le> num_visible \<and> num_outside < 4) \<longrightarrow>
          create_kitti_datapoint cu bbs agent camera cam_calibration img depth_map
            player_transform max_render_depth_arg logged =
          Inr (Tuple3 img None None, depth_map, logged)) \<and>
         MIN_VISIBLE_VERTICES_FOR_RENDER = 4 \<and>
         vertices_gate m a b = (m \<le> a \<and> b < m) \<and>
         (m \<le> m' \<and> vertices_gate m' a b \<longrightarrow> m \<le> a) \<and>
         (m \<le> m' \<and> vertices_gate m a b \<and> m' \<le> a \<longrightarrow> vertices_gate m' a b)"
proof -
  note eq = create_kitti_datapoint_classified [OF assms, of player_transform logged]
  have only_if: "4 \<le> num_visible \<and> num_outside < 4"
    if "create_kitti_datapoint cu bbs agent camera cam_calibration img depth_map
          player_transform max_render_depth_arg logged = Inr (r, d, l)"
      and "returned_label r = Some datapoint" for r d l datapoint
    using that unfolding eq by (auto split: if_splits)
  have otherwise: "create_kitti_datapoint cu bbs agent camera cam_calibration img depth_map
                     player_transform max_render_depth_arg logged =
                   Inr (Tuple3 img None None, depth_map, logged)"
    if "\<not> (4 \<le> num_visible \<and> num_outside < 4)"
    using that unfolding eq by auto
  have gate: "vertices_gate m a b = (m \<le> a \<and> b < m)"
    by (auto simp: vertices_gate_def)
  have stricter: "m \<le> a" if "m \<le> m'" and "vertices_gate m' a b"
    using that by (simp add: vertices_gate_def)
  have looser: "vertices_gate m' a b" if "m \<le> m'" and "vertices_gate m a b" and "m' \<le> a"
    using that by (simp add: vertices_gate_def)
  show ?thesis
    using only_if otherwise gate stricter looser
    by (simp add: MIN_VISIBLE_VERTICES_FOR_RENDER_def) blast
qed

text \<open>
  The amended claim C2 in the test scene: behind a depth buffer that stores 1/2 all
  eight corners are occluded, no vertex is visible, and the result has no label.
\<close>

theorem visibility_gate_witness:
  "calculate_occlusion_stats scene_camera_utils [] (scene_camera_bbox 5)
     (scene_depth_map (1 / 2)) 70 False = ([], scene_depth_map (1 / 2), 0, 0) \<and>
   create_kitti_datapoint scene_camera_utils scene_boxes
     (scene_agent ''vehicle.tesla.model3'') () (scene_calibration 5) []
     (scene_depth_map (1 / 2)) scene_player_transform None [] =
   Inr (Tuple3 [] None None, scene_depth_map (1 / 2), []) \<and>
   MIN_VISIBLE_VERTICES_FOR_RENDER = 4"
proof -
  have stats: "calculate_occlusion_stats scene_camera_utils [] (scene_camera_bbox 5)
                 (scene_depth_map (1 / 2)) (case None of None \<Rightarrow> 70 | Some m \<Rightarrow> m) False =
               ([], scene_depth_map (1 / 2), 0, 0)"
    using scene_stats_occluded [of 5 "1 / 2" "[]"] by simp
  show ?thesis
    using visibility_gate [OF scene_vehicle scene_geometry stats,
        of scene_player_transform "[]" 4 4 3 5] stats
    by simp
qed

text \<open>
  Claim C3. When the type tag is unclassified, \<^verbatim>\<open>create_kitti_datapoint\<close> returns the
  tuple of two components \<open>(image, None)\<close>. When the tag is classified, the call either
  raises out of the geometry or returns a tuple of three components
  \<open>(image, label or None, box or None)\<close>, with the box present exactly when the label is:
  visibility rejection and area rejection give \<open>(image, None, None)\<close>, acceptance gives
  the label and the box.
\<close>

theorem returned_tuple_arity:
  "(transforms_from_agent agent = None \<longrightarrow>
      create_kitti_datapoint cu bbs agent camera cam_calibration img depth_map
        player_transform max_render_depth_arg logged =
      Inr (Tuple2 img None, depth_map,
           logged @ [Warning ''Could not get bounding box for agent. Object type is None''])) \<and>
   (transforms_from_agent agent \<noteq> None \<longrightarrow>
      (\<exists>e. get_bounding_box_and_refpoint bbs agent camera cam_calibration = Inl e \<and>
           create_kitti_datapoint cu bbs agent camera cam_calibration img depth_map
             player_transform max_render_depth_arg logged = Inl e) \<or>
      (\<exists>label box logged'.
           create_kitti_datapoint cu bbs agent camera cam_calibration img depth_map
             player_transform max_render_depth_arg logged =
           Inr (Tuple3 img label box, depth_map, logged') \<and>
           (label = None \<longleftrightarrow> box = None)))"
proof (intro conjI impI)
  assume "transforms_from_agent agent = None"
  then show "create_kitti_datapoint cu bbs agent camera cam_calibration img depth_map
               player_transform max_render_depth_arg logged =
             Inr (Tuple2 img None, depth_map,
                  logged @
                  [Warning ''Could not get bounding box for agent. Object type is None''])"
    by (rule create_kitti_datapoint_unclassified)
next
  assume "transforms_from_agent agent \<noteq> None"
  then obtain tr where "transforms_from_agent agent = Some tr" by auto
  then show "(\<exists>e. get_bounding_box_and_refpoint bbs agent camera cam_calibration = Inl e \<and>
                  create_kitti_datapoint cu bbs agent camera cam_calibration img depth_map
                    player_transform max_render_depth_arg logged = Inl e) \<or>
             (\<exists>label box logged'.
                  create_kitti_datapoint cu bbs agent camera cam_calibration img depth_map
                    player_transform max_render_depth_arg logged =
                  Inr (Tuple3 img label box, depth_map, logged') \<and>
                  (label = None \<longleftrightarrow> box = None))"
    by (rule create_kitti_datapoint_outcomes)
qed

text \<open>
  Claim C3 in the test scene: the tag \<^verbatim>\<open>static.prop.box\<close> gives the tuple of two
  components, the tag of a vehicle a tuple of three.
\<close>

theorem returned_tuple_arity_witness:
  "create_kitti_datapoint scene_camera_utils scene_boxes (scene_agent ''static.prop.box'') ()
     (scene_calibration 5) [] (scene_depth_map 1000) scene_player_transform None [] =
   Inr (Tuple2 [] None, scene_depth_map 1000,
        [Warning ''Could not get bounding box for agent. Object type is None'']) \<and>
   (\<exists>label box logged'.
      create_kitti_datapoint scene_camera_utils scene_boxes
        (scene_agent ''vehicle.tesla.model3'') () (scene_calibration 5) []
        (scene_depth_map 1000) scene_player_transform None [] =
      Inr (Tuple3 [] label box, scene_depth_map 1000, logged') \<and>
      (label = None \<longleftrightarrow> box = None))"
proof -
  have classified: "transforms_from_agent (scene_agent ''vehicle.tesla.model3'') \<noteq> None"
    using scene_vehicle by simp
  have geometry: "get_bounding_box_and_refpoint scene_boxes
                    (scene_agent ''vehicle.tesla.model3'') () (scene_calibration 5) \<noteq> Inl e"
    for e
    using scene_geometry [of "''vehicle.tesla.model3''" 5] by simp
  from returned_tuple_arity [of "scene_agent ''static.prop.box''" scene_camera_utils
      scene_boxes "()" "scene_calibration 5" "[]" "scene_depth_map 1000"
      scene_player_transform None "[]"] scene_prop
  have two: "create_kitti_datapoint scene_camera_utils scene_boxes
               (scene_agent ''static.prop.box'') () (scene_calibration 5) []
               (scene_depth_map 1000) scene_player_transform None [] =
             Inr (Tuple2 [] None, scene_depth_map 1000,
                  [Warning ''Could not get bounding box for agent. Object type is None''])"
    by simp
  from returned_tuple_arity [of "scene_agent ''vehicle.tesla.model3''" scene_camera_utils
      scene_boxes "()" "scene_calibration 5" "[]" "scene_depth_map 1000"
      scene_player_transform None "[]"] classified geometry
  have three: "\<exists>label box logged'.
      create_kitti_datapoint scene_camera_utils scene_boxes
        (scene_agent ''vehicle.tesla.model3'') () (scene_calibration 5) []
        (scene_depth_map 1000) scene_player_transform None [] =
      Inr (Tuple3 [] label box, scene_depth_map 1000, logged') \<and>
      (label = None \<longleftrightarrow> box = None)"
    by blast
  from two three show ?thesis by (rule conjI)
qed

text \<open>
  Claim C7, as stated, fails on the floats of the program. With the agent at yaw 0 and
  the reference at yaw \<^verbatim>\<open>1e-15\<close> (the double \<open>2535301200456459 / 2 ^ 101\<close>) the raw angle
  is a tiny negative number, the modulus added to it rounds to the modulus, and the
  heading of the label is \<^verbatim>\<open>math.pi\<close> itself, the upper end that \<open>[0, \<pi>)\<close> leaves out.
  With the reference at yaw 1980 the exact angle is \<open>- 11 \<pi>\<close>, whose reduction is 0, and
  the heading of the label is \<^verbatim>\<open>3.1415926535897896\<close>, above 3.
\<close>

theorem heading_reaches_math_pi:
  "create_kitti_datapoint scene_camera_utils scene_boxes (scene_agent_yaw 0) ()
     (scene_calibration 5) [] (scene_depth_map 1000)
     (scene_player_yaw (2535301200456459 / 2 ^ 101)) None [] =
   Inr (Tuple3 []
          (Some \<lparr>kitti_type = Some ''Car'', kitti_bbox = Some (45, 45, 55, 55),
                 kitti_dimensions = Some (1 / 2, 1, 1), kitti_location = Some (3 / 2, 0, 0),
                 kitti_rotation_y = Some math_pi\<rparr>)
          (Some (scene_camera_bbox 5)),
        scene_depth_map 1000, []) \<and>
   create_kitti_datapoint scene_camera_utils scene_boxes (scene_agent_yaw 0) ()
     (scene_calibration 5) [] (scene_depth_map 1000) (scene_player_yaw 1980) None [] =
   Inr (Tuple3 []
          (Some \<lparr>kitti_type = Some ''Car'', kitti_bbox = Some (45, 45, 55, 55),
                 kitti_dimensions = Some (1 / 2, 1, 1), kitti_location = Some (3 / 2, 0, 0),
                 kitti_rotation_y = Some (442139859501777 / 2 ^ 47)\<rparr>)
          (Some (scene_camera_bbox 5)),
        scene_depth_map 1000, []) \<and>
   (3::real) < 442139859501777 / 2 ^ 47 \<and>
   ((0::real) - 1980) * (pi / 180) - of_int (- 11) * pi = 0"
proof -
  have "create_kitti_datapoint scene_camera_utils scene_boxes (scene_agent_yaw 0) ()
          (scene_calibration 5) [] (scene_depth_map 1000)
          (scene_player_yaw (2535301200456459 / 2 ^ 101)) None [] =
        Inr (Tuple3 []
               (Some \<lparr>kitti_type = Some ''Car'', kitti_bbox = Some (45, 45, 55, 55),
                      kitti_dimensions = Some (1 / 2, 1, 1),
                      kitti_location = Some (3 / 2, 0, 0),
                      kitti_rotation_y = Some math_pi\<rparr>)
               (Some (scene_camera_bbox 5)),
             scene_depth_map 1000, [])"
    unfolding scene_yaw_datapoint heading_0_1e15 ..
  moreover have "create_kitti_datapoint scene_camera_utils scene_boxes (scene_agent_yaw 0) ()
          (scene_calibration 5) [] (scene_depth_map 1000) (scene_player_yaw 1980) None [] =
        Inr (Tuple3 []
               (Some \<lparr>kitti_type = Some ''Car'', kitti_bbox = Some (45, 45, 55, 55),
                      kitti_dimensions = Some (1 / 2, 1, 1),
                      kitti_location = Some (3 / 2, 0, 0),
                      kitti_rotation_y = Some (442139859501777 / 2 ^ 47)\<rparr>)
               (Some (scene_camera_bbox 5)),
             scene_depth_map 1000, [])"
    unfolding scene_yaw_datapoint heading_0_1980 ..
  moreover have "(3::real) < 442139859501777 / 2 ^ 47" by simp
  moreover have "((0::real) - 1980) * (pi / 180) - of_int (- 11) * pi = 0" by simp
  ultimately show ?thesis by (intro conjI)
qed

text \<open>
  Claim C7, amended. For every accepted agent whose yaws differ by no more than
  \<open>2 ^ 1023\<close> (so that no operation overflows), the heading of the label is the float
  \<^verbatim>\<open>math.radians(agent_yaw - reference_yaw) % math.pi\<close>: the rounded angle less a whole
  multiple of the double \<^verbatim>\<open>math.pi\<close>, rounded once more when the modulus has been added.
  It lies in the closed range from 0 to \<^verbatim>\<open>math.pi\<close>, so it is never negative, also for a
  negative difference of the yaws. For the yaws 10 and 370 degrees the heading is 0.
\<close>

theorem heading_in_closed_range:
  assumes "create_kitti_datapoint cu bbs agent camera cam_calibration img depth_map
             player_transform max_render_depth_arg logged = Inr (r, depth_map', logged')"
    and "returned_label r = Some datapoint"
    and "\<bar>yaw (rotation (get_transform agent)) - yaw (rotation player_transform)\<bar> \<le> 2 ^ 1023"
  shows "\<exists>heading. \<exists>k::int.
           kitti_rotation_y datapoint = Some heading \<and>
           (heading =
              radians (round_double (yaw (rotation (get_transform agent)) -
                                     yaw (rotation player_transform))) -
              of_int k * math_pi \<or>
            heading =
              round_double
                (radians (round_double (yaw (rotation (get_transform agent)) -
                                        yaw (rotation player_transform))) -
                 of_int k * math_pi)) \<and>
           0 \<le> heading \<and> heading \<le> math_pi \<and>
           (yaw (rotation (get_transform agent)) = 10 \<and> yaw (rotation player_transform) = 370
              \<longrightarrow> heading = 0)"
proof -
  define raw where "raw = get_relative_rotation_y agent player_transform"
  define heading where "heading = float_rem raw math_pi"
  have raw: "raw = radians (round_double (yaw (rotation (get_transform agent)) -
                                          yaw (rotation player_transform)))"
    unfolding raw_def by (simp add: get_relative_rotation_y_def)
  from assms(1,2) have label: "kitti_rotation_y datapoint = Some heading"
    unfolding heading_def raw_def by (rule create_kitti_datapoint_label) simp
  obtain k :: int where
    reduced: "heading = raw - of_int k * math_pi \<or>
              heading = round_double (raw - of_int k * math_pi)"
    unfolding heading_def using float_rem_reduced by blast
  have range: "0 \<le> heading \<and> heading \<le> math_pi"
    unfolding heading_def by (rule float_rem_range)
  have example: "heading = 0"
    if "yaw (rotation (get_transform agent)) = 10 \<and> yaw (rotation player_transform) = 370"
    unfolding heading_def raw using that by (simp only: heading_10_370)
  show ?thesis
    using label reduced [unfolded raw] range example by blast
qed

text \<open>
  The amended claim C7 in the test scene, where the agent has the yaw 10 and the
  reference pose the yaw 370: the label is returned and its heading is 0.
\<close>

theorem heading_in_closed_range_witness:
  "create_kitti_datapoint scene_camera_utils scene_boxes
     (scene_agent ''vehicle.tesla.model3'') () (scene_calibration 5) []
     (scene_depth_map 1000) scene_player_transform None [] =
   Inr (Tuple3 []
          (Some \<lparr>kitti_type = Some ''Car'', kitti_bbox = Some (45, 45, 55, 55),
                 kitti_dimensions = Some (1 / 2, 1, 1), kitti_location = Some (3 / 2, 0, 0),
                 kitti_rotation_y = Some 0\<rparr>)
          (Some (scene_camera_bbox 5)),
        scene_depth_map 1000, []) \<and>
   (\<exists>heading.
      kitti_rotation_y
        \<lparr>kitti_type = Some ''Car'', kitti_bbox = Some (45, 45, 55, 55),
         kitti_dimensions = Some (1 / 2, 1, 1), kitti_location = Some (3 / 2, 0, 0),
         kitti_rotation_y = Some 0\<rparr> = Some heading \<and>
      0 \<le> heading \<and> heading \<le> math_pi \<and> heading = 0)"
proof -
  have call: "create_kitti_datapoint scene_camera_utils scene_boxes
                (scene_agent ''vehicle.tesla.model3'') () (scene_calibration 5) []
                (scene_depth_map 1000) scene_player_transform None [] =
              Inr (Tuple3 []
                     (Some \<lparr>kitti_type = Some ''Car'', kitti_bbox = Some (45, 45, 55, 55),
                            kitti_dimensions = Some (1 / 2, 1, 1),
                            kitti_location = Some (3 / 2, 0, 0), kitti_rotation_y = Some 0\<rparr>)
                     (Some (scene_camera_bbox 5)),
                   scene_depth_map 1000, [])"
    using scene_datapoint [of 5 1000 "[]" "[]"] by simp
  have label: "returned_label
                 (Tuple3 []
                    (Some \<lparr>kitti_type = Some ''Car'', kitti_bbox = Some (45, 45, 55, 55),
                           kitti_dimensions = Some (1 / 2, 1, 1),
                           kitti_location = Some (3 / 2, 0, 0), kitti_rotation_y = Some 0\<rparr>)
                    (Some (scene_camera_bbox 5))) =
               Some \<lparr>kitti_type = Some ''Car'', kitti_bbox = Some (45, 45, 55, 55),
                     kitti_dimensions = Some (1 / 2, 1, 1),
                     kitti_location = Some (3 / 2, 0, 0), kitti_rotation_y = Some 0\<rparr>"
    by simp
  have yaws: "yaw (rotation (get_transform (scene_agent ''vehicle.tesla.model3''))) = 10 \<and>
              yaw (rotation scene_player_transform) = 370"
    by (simp add: scene_agent_def scene_player_transform_def)
  have finite:
    "\<bar>yaw (rotation (get_transform (scene_agent ''vehicle.tesla.model3''))) -
      yaw (rotation scene_player_transform)\<bar> \<le> 2 ^ 1023"
    by (simp add: scene_agent_def scene_player_transform_def)
  from heading_in_closed_range [OF call label finite] yaws
  have "\<exists>heading.
      kitti_rotation_y
        \<lparr>kitti_type = Some ''Car'', kitti_bbox = Some (45, 45, 55, 55),
         kitti_dimensions = Some (1 / 2, 1, 1), kitti_location = Some (3 / 2, 0, 0),
         kitti_rotation_y = Some 0\<rparr> = Some heading \<and>
      0 \<le> heading \<and> heading \<le> math_pi \<and> heading = 0"
    by blast
  with call show ?thesis by (rule conjI)
qed

text \<open>
  Claim C8. The class is found by substring: a tag that contains \<^verbatim>\<open>pedestrian\<close> is a
  \<^verbatim>\<open>Pedestrian\<close>, otherwise a tag that contains \<^verbatim>\<open>vehicle\<close> is a \<^verbatim>\<open>Car\<close>, otherwise
  there is no class. For an agent whose tag contains neither, the call returns at once
  the image without label and logs one warning, whatever the helpers of the geometry, the
  camera, the calibration and the depth buffer are: none of the geometry stages takes
  part in the result.
\<close>

theorem unclassified_agent_no_label:
  "map_option fst (transforms_from_agent agent) =
     (if sublist ''pedestrian'' (type_id agent) then Some ''Pedestrian''
      else if sublist ''vehicle'' (type_id agent) then Some ''Car''
      else None) \<and>
   (\<not> sublist ''pedestrian'' (type_id agent) \<and> \<not> sublist ''vehicle'' (type_id agent) \<longrightarrow>
      create_kitti_datapoint cu bbs agent camera cam_calibration img depth_map
        player_transform max_render_depth_arg logged =
      Inr (Tuple2 img None, depth_map,
           logged @ [Warning ''Could not get bounding box for agent. Object type is None'']))"
proof (intro conjI impI)
  show "map_option fst (transforms_from_agent agent) =
          (if sublist ''pedestrian'' (type_id agent) then Some ''Pedestrian''
           else if sublist ''vehicle'' (type_id agent) then Some ''Car''
           else None)"
    by (simp add: transforms_from_agent_def Let_def)
next
  assume "\<not> sublist ''pedestrian'' (type_id agent) \<and> \<not> sublist ''vehicle'' (type_id agent)"
  then have "transforms_from_agent agent = None"
    by (simp add: transforms_from_agent_def)
  then show "create_kitti_datapoint cu bbs agent camera cam_calibration img depth_map
               player_transform max_render_depth_arg logged =
             Inr (Tuple2 img None, depth_map,
                  logged @
                  [Warning ''Could not get bounding box for agent. Object type is None''])"
    by (rule create_kitti_datapoint_unclassified)
qed

text \<open>
  Claim C8 in the test scene, with helpers on which the geometry would raise: the tag
  \<^verbatim>\<open>static.prop.box\<close> has no class and the call returns without label, although the
  geometry of the same scene raises \<^verbatim>\<open>IndexError\<close>.
\<close>

theorem unclassified_agent_no_label_witness:
  "map_option fst (transforms_from_agent (scene_agent ''static.prop.box'')) = None \<and>
   get_bounding_box_and_refpoint scene_broken_boxes (scene_agent ''static.prop.box'') ()
     (scene_calibration 5) = Inl IndexError \<and>
   create_kitti_datapoint scene_camera_utils scene_broken_boxes
     (scene_agent ''static.prop.box'') () (scene_calibration 5) [] (scene_depth_map 1000)
     scene_player_transform None [] =
   Inr (Tuple2 [] None, scene_depth_map 1000,
        [Warning ''Could not get bounding box for agent. Object type is None''])"
proof -
  have tag: "\<not> sublist ''pedestrian'' (type_id (scene_agent ''static.prop.box'')) \<and>
             \<not> sublist ''vehicle'' (type_id (scene_agent ''static.prop.box''))"
    by (simp add: scene_agent_def sublist_code)
  have broken: "get_bounding_box_and_refpoint scene_broken_boxes
                  (scene_agent ''static.prop.box'') () (scene_calibration 5) = Inl IndexError"
    by (simp add: get_bounding_box_and_refpoint_def scene_broken_boxes_def)
  show ?thesis
    using unclassified_agent_no_label [of "scene_agent ''static.prop.box''"
        scene_camera_utils scene_broken_boxes "()" "scene_calibration 5" "[]"
        "scene_depth_map 1000" scene_player_transform None "[]"] tag broken
    by simp
qed

text \<open>
  Claim C9. \<^verbatim>\<open>calculate_occlusion_stats\<close> leaves the depth buffer as it was, and the two
  counts it returns are the same with the overlay of vertex markers switched on and
  switched off. \<^verbatim>\<open>create_kitti_datapoint\<close> calls it with the overlay switched off: its
  result is the same whatever the drawing routine is, and the image and the depth buffer
  come back as they were passed.
\<close>

theorem occlusion_stats_frame:
  "fst (snd (calculate_occlusion_stats cu img bbox_points depth_map max_render_depth
               draw_vertices)) = depth_map \<and>
   snd (snd (calculate_occlusion_stats cu img bbox_points depth_map max_render_depth True)) =
   snd (snd (calculate_occlusion_stats cu img bbox_points depth_map max_render_depth False)) \<and>
   create_kitti_datapoint (cu\<lparr>draw_rect := f\<rparr>) bbs agent camera cam_calibration img depth_map
     player_transform max_render_depth_arg logged =
   create_kitti_datapoint cu bbs agent camera cam_calibration img depth_map
     player_transform max_render_depth_arg logged \<and>
   (\<forall>r depth_map' logged'.
      create_kitti_datapoint cu bbs agent camera cam_calibration img depth_map
        player_transform max_render_depth_arg logged = Inr (r, depth_map', logged') \<longrightarrow>
      returned_image r = img \<and> depth_map' = depth_map)"
proof (intro conjI allI impI)
  show "fst (snd (calculate_occlusion_stats cu img bbox_points depth_map max_render_depth
                    draw_vertices)) = depth_map"
    unfolding calculate_occlusion_stats_def by (rule loop_depth_map)
next
  show "snd (snd (calculate_occlusion_stats cu img bbox_points depth_map max_render_depth
                    True)) =
        snd (snd (calculate_occlusion_stats cu img bbox_points depth_map max_render_depth
                    False))"
    unfolding calculate_occlusion_stats_def by (rule loop_counts)
next
  have off: "calculate_occlusion_stats (cu\<lparr>draw_rect := f\<rparr>) img ps depth_map m False =
             calculate_occlusion_stats cu img ps depth_map m False" for ps m
    unfolding calculate_occlusion_stats_def by (rule loop_no_draw)
  show "create_kitti_datapoint (cu\<lparr>draw_rect := f\<rparr>) bbs agent camera cam_calibration
               img depth_map player_transform max_render_depth_arg logged =
             create_kitti_datapoint cu bbs agent camera cam_calibration img depth_map
               player_transform max_render_depth_arg logged"
    unfolding create_kitti_datapoint_def off ..
next
  fix r depth_map' logged'
  assume "create_kitti_datapoint cu bbs agent camera cam_calibration img depth_map
            player_transform max_render_depth_arg logged = Inr (r, depth_map', logged')"
  then have frame: "returned_image r = img \<and> depth_map' = depth_map"
    by (rule create_kitti_datapoint_frame)
  from frame show "returned_image r = img" by simp
  from frame show "depth_map' = depth_map" by simp
qed

text \<open>
  Claim C9 on the eight corners of the test scene: with the overlay switched on the
  depth buffer comes back unchanged and the counts are the 8 and 0 of the run without
  overlay; the data point of the scene returns the image it was given.
\<close>

theorem occlusion_stats_frame_witness:
  "fst (snd (calculate_occlusion_stats scene_camera_utils [] (scene_camera_bbox 5)
               (scene_depth_map 1000) 70 True)) = scene_depth_map 1000 \<and>
   snd (snd (calculate_occlusion_stats scene_camera_utils [] (scene_camera_bbox 5)
               (scene_depth_map 1000) 70 True)) = (8, 0) \<and>
   returned_image
     (Tuple3 ([] :: ((real \<times> real) \<times> color) list)
        (Some \<lparr>kitti_type = Some ''Car'', kitti_bbox = Some (45, 45, 55, 55),
               kitti_dimensions = Some (1 / 2, 1, 1), kitti_location = Some (3 / 2, 0, 0),
               kitti_rotation_y = Some 0\<rparr>)
        (Some (scene_camera_bbox 5))) = []"
proof -
  have off: "calculate_occlusion_stats scene_camera_utils [] (scene_camera_bbox 5)
               (scene_depth_map 1000) 70 False = ([], scene_depth_map 1000, 8, 0)"
    using scene_stats [of 5 1000 "[]"] by simp
  have call: "create_kitti_datapoint scene_camera_utils scene_boxes
                (scene_agent ''vehicle.tesla.model3'') () (scene_calibration 5) []
                (scene_depth_map 1000) scene_player_transform None [] =
              Inr (Tuple3 []
                     (Some \<lparr>kitti_type = Some ''Car'', kitti_bbox = Some (45, 45, 55, 55),
                            kitti_dimensions = Some (1 / 2, 1, 1),
                            kitti_location = Some (3 / 2, 0, 0), kitti_rotation_y = Some 0\<rparr>)
                     (Some (scene_camera_bbox 5)),
                   scene_depth_map 1000, [])"
    using scene_datapoint [of 5 1000 "[]" "[]"] by simp
  note frame = occlusion_stats_frame [of scene_camera_utils "[]" "scene_camera_bbox 5"
      "scene_depth_map 1000" 70 True "draw_rect scene_camera_utils" scene_boxes
      "scene_agent ''vehicle.tesla.model3''" "()" "scene_calibration 5"
      scene_player_transform None "[]"]
  from frame have "fst (snd (calculate_occlusion_stats scene_camera_utils []
      (scene_camera_bbox 5) (scene_depth_map 1000) 70 True)) = scene_depth_map 1000"
    by (rule conjunct1)
  moreover from frame off have "snd (snd (calculate_occlusion_stats scene_camera_utils []
      (scene_camera_bbox 5) (scene_depth_map 1000) 70 True)) = (8, 0)"
    by simp
  moreover from frame call have "returned_image
     (Tuple3 ([] :: ((real \<times> real) \<times> color) list)
        (Some \<lparr>kitti_type = Some ''Car'', kitti_bbox = Some (45, 45, 55, 55),
               kitti_dimensions = Some (1 / 2, 1, 1), kitti_location = Some (3 / 2, 0, 0),
               kitti_rotation_y = Some 0\<rparr>)
        (Some (scene_camera_bbox 5))) = []"
    by simp
  ultimately show ?thesis by simp
qed

text \<open>
  Claim C10. The evaluation is a function of its snapshot inputs: the label and the box
  it returns (or the error it raises) are the same whatever the image holds and
  whatever has been logged before, and a second call on the state that the first call
  left behind (its image, its depth buffer, its log) returns the same tuple once more.
\<close>

theorem create_kitti_datapoint_deterministic:
  "(case create_kitti_datapoint cu bbs agent camera cam_calibration img depth_map
           player_transform max_render_depth_arg logged of
      Inl e \<Rightarrow> Inl e | Inr (r, d, l) \<Rightarrow> Inr (returned_label r, returned_box r)) =
   (case create_kitti_datapoint cu bbs agent camera cam_calibration img2 depth_map
           player_transform max_render_depth_arg logged2 of
      Inl e \<Rightarrow> Inl e | Inr (r, d, l) \<Rightarrow> Inr (returned_label r, returned_box r)) \<and>
   (\<forall>r depth_map' logged'.
      create_kitti_datapoint cu bbs agent camera cam_calibration img depth_map
        player_transform max_render_depth_arg logged = Inr (r, depth_map', logged') \<longrightarrow>
      (\<exists>logged''.
         create_kitti_datapoint cu bbs agent camera cam_calibration (returned_image r)
           depth_map' player_transform max_render_depth_arg logged' =
         Inr (r, depth_map', logged'')))"
proof (intro conjI allI impI)
  show "(case create_kitti_datapoint cu bbs agent camera cam_calibration img depth_map
                player_transform max_render_depth_arg logged of
           Inl e \<Rightarrow> Inl e | Inr (r, d, l) \<Rightarrow> Inr (returned_label r, returned_box r)) =
        (case create_kitti_datapoint cu bbs agent camera cam_calibration img2 depth_map
                player_transform max_render_depth_arg logged2 of
           Inl e \<Rightarrow> Inl e | Inr (r, d, l) \<Rightarrow> Inr (returned_label r, returned_box r))"
    by (rule create_kitti_datapoint_image)
next
  fix r depth_map' logged'
  assume first: "create_kitti_datapoint cu bbs agent camera cam_calibration img depth_map
                   player_transform max_render_depth_arg logged = Inr (r, depth_map', logged')"
  then have "returned_image r = img \<and> depth_map' = depth_map"
    by (rule create_kitti_datapoint_frame)
  then have frame: "returned_image r = img" "depth_map' = depth_map"
    by simp_all
  have "(case create_kitti_datapoint cu bbs agent camera cam_calibration img depth_map
                player_transform max_render_depth_arg logged' of
           Inl e \<Rightarrow> Inl e | Inr (r, d, l) \<Rightarrow> Inr (r, d)) =
        (Inr (r, depth_map') :: error + _)"
    using create_kitti_datapoint_log [of cu bbs agent camera cam_calibration img depth_map
        player_transform max_render_depth_arg logged' logged] first
    by simp
  then show "\<exists>logged''.
      create_kitti_datapoint cu bbs agent camera cam_calibration (returned_image r)
        depth_map' player_transform max_render_depth_arg logged' =
      Inr (r, depth_map', logged'')"
    unfolding frame by (auto split: sum.splits)
qed

text \<open>
  Claim C10 in the test scene: the call is made with an empty image and an empty log,
  then again with a marked image and a log that holds a record; the label and the box
  are the same.
\<close>

theorem create_kitti_datapoint_deterministic_witness:
  "(case create_kitti_datapoint scene_camera_utils scene_boxes
           (scene_agent ''vehicle.tesla.model3'') () (scene_calibration 5)
           [((1, 1), VISIBLE_VERTEX_COLOR)] (scene_depth_map 1000) scene_player_transform
           None [Warning ''earlier''] of
      Inl e \<Rightarrow> Inl e | Inr (r, d, l) \<Rightarrow> Inr (returned_label r, returned_box r)) =
   Inr (Some \<lparr>kitti_type = Some ''Car'', kitti_bbox = Some (45, 45, 55, 55),
              kitti_dimensions = Some (1 / 2, 1, 1), kitti_location = Some (3 / 2, 0, 0),
              kitti_rotation_y = Some 0\<rparr>,
        Some (scene_camera_bbox 5))"
proof -
  have call: "create_kitti_datapoint scene_camera_utils scene_boxes
                (scene_agent ''vehicle.tesla.model3'') () (scene_calibration 5) []
                (scene_depth_map 1000) scene_player_transform None [] =
              Inr (Tuple3 []
                     (Some \<lparr>kitti_type = Some ''Car'', kitti_bbox = Some (45, 45, 55, 55),
                            kitti_dimensions = Some (1 / 2, 1, 1),
                            kitti_location = Some (3 / 2, 0, 0), kitti_rotation_y = Some 0\<rparr>)
                     (Some (scene_camera_bbox 5)),
                   scene_depth_map 1000, [])"
    using scene_datapoint [of 5 1000 "[]" "[]"] by simp
  show ?thesis
    using create_kitti_datapoint_deterministic [of scene_camera_utils scene_boxes
        "scene_agent ''vehicle.tesla.model3''" "()" "scene_calibration 5" "[]"
        "scene_depth_map 1000" scene_player_transform None "[]"
        "[((1, 1), VISIBLE_VERTEX_COLOR)]" "[Warning ''earlier'']", THEN conjunct1]
    unfolding call by simp
qed

section \<open>The projection of the nine points\<close>

lemma nine_points_split:
  assumes "length xs = 9"
  shows "length (butlast (map f xs)) = 8"
    and "\<And>i. i < 8 \<Longrightarrow> butlast (map f xs) ! i = f (xs ! i)"
    and "last (map f xs) = f (xs ! 8)"
    and "map f xs \<noteq> []"
proof -
  show "length (butlast (map f xs)) = 8" using assms by simp
  show "butlast (map f xs) ! i = f (xs ! i)" if "i < 8" for i
    using that assms by (simp add: nth_butlast)
  have "xs \<noteq> []" using assms by auto
  then show "last (map f xs) = f (xs ! 8)"
    using assms by (simp add: last_map last_conv_nth)
  show "map f xs \<noteq> []" using \<open>xs \<noteq> []\<close> by simp
qed

text \<open>
  Claim C6. \<^verbatim>\<open>get_bounding_box_and_refpoint\<close> hands the eight box corners and, as the
  ninth point, the origin \<open>(0, 0, 0)\<close> of the local frame (homogeneous coordinate 1) to
  the sensor transform in one batch. Each of the nine points \<open>(x, y, z)\<close> it gets back is
  reordered to \<open>(y, - z, x)\<close> and multiplied with the rows of the calibration matrix; the
  third product is the depth and is kept as it is, the first two are divided by it and
  give the pixel. The first eight results are the projected corners, the ninth is the
  projected reference point; the sensor-frame points are split the same way. With a
  calibration whose last row is \<open>(0, 0, 1)\<close> the depth is the forward coordinate \<open>x\<close>.
  The quotients are stated for a depth other than zero.
\<close>

theorem projection_of_nine_points:
  assumes "length (create_bb_points bbs agent) = 8"
    and "vehicle_to_sensor bbs (create_bb_points bbs agent @ [(0, 0, 0, 1)]) agent camera = cs"
    and "length cs = 9"
  shows "\<exists>camera_bbox camera_refpoint sensor_bbox sensor_refpoint.
           get_bounding_box_and_refpoint bbs agent camera
             ((a0, b0, c0), (a1, b1, c1), (a2, b2, c2)) =
           Inr ((camera_bbox, camera_refpoint), (sensor_bbox, sensor_refpoint)) \<and>
           length camera_bbox = 8 \<and> length sensor_bbox = 8 \<and>
           (\<forall>i < 9. case cs ! i of
              (x, y, z, w) \<Rightarrow>
                (case (camera_bbox @ [camera_refpoint]) ! i of
                   (pixel_x, pixel_y, depth) \<Rightarrow>
                     depth = a2 * y + b2 * (- z) + c2 * x \<and>
                     (depth \<noteq> 0 \<longrightarrow>
                        pixel_x = (a0 * y + b0 * (- z) + c0 * x) / depth \<and>
                        pixel_y = (a1 * y + b1 * (- z) + c1 * x) / depth) \<and>
                     (a2 = 0 \<and> b2 = 0 \<and> c2 = 1 \<longrightarrow> depth = x)) \<and>
                (sensor_bbox @ [sensor_refpoint]) ! i = (x, y, z))"
proof -
  define project :: "vec4 \<Rightarrow> vec3" where
    "project = (\<lambda>(x, y, z, w).
       ((a0 * y + b0 * (- z) + c0 * x) / (a2 * y + b2 * (- z) + c2 * x),
        (a1 * y + b1 * (- z) + c1 * x) / (a2 * y + b2 * (- z) + c2 * x),
        a2 * y + b2 * (- z) + c2 * x))"
  define sensor :: "vec4 \<Rightarrow> vec3" where "sensor = (\<lambda>(x, y, z, w). (x, y, z))"
  have projected:
    "map (\<lambda>(u, v, d). (u / d, v / d, d))
       (map (np_dot ((a0, b0, c0), (a1, b1, c1), (a2, b2, c2)))
          (map (\<lambda>(x, y, z). (y, - z, x)) (map (\<lambda>(x, y, z, w). (x, y, z)) cs))) =
     map project cs"
    by (simp add: project_def np_dot_def dot3_def split_def)
  have sensed: "map (\<lambda>(x, y, z, w). (x, y, z)) cs = map sensor cs"
    by (simp add: sensor_def)
  note camera_parts = nine_points_split [OF assms(3), where f = project]
  note sensor_parts = nine_points_split [OF assms(3), where f = sensor]
  have result:
    "get_bounding_box_and_refpoint bbs agent camera
       ((a0, b0, c0), (a1, b1, c1), (a2, b2, c2)) =
     Inr ((butlast (map project cs), last (map project cs)),
          (butlast (map sensor cs), last (map sensor cs)))"
    unfolding get_bounding_box_and_refpoint_def Let_def assms(2) projected
    unfolding sensed
    using camera_parts(4) by (simp only: if_False)
  have whole: "(butlast (map g cs) @ [last (map g cs)]) ! i = g (cs ! i)"
    if "i < 9" for i and g :: "vec4 \<Rightarrow> vec3"
  proof -
    have "map g cs \<noteq> []" using assms(3) by auto
    then have "butlast (map g cs) @ [last (map g cs)] = map g cs" by simp
    then show ?thesis using that assms(3) by simp
  qed
  have each: "case cs ! i of
      (x, y, z, w) \<Rightarrow>
        (case (butlast (map project cs) @ [last (map project cs)]) ! i of
           (pixel_x, pixel_y, depth) \<Rightarrow>
             depth = a2 * y + b2 * (- z) + c2 * x \<and>
             (depth \<noteq> 0 \<longrightarrow>
                pixel_x = (a0 * y + b0 * (- z) + c0 * x) / depth \<and>
                pixel_y = (a1 * y + b1 * (- z) + c1 * x) / depth) \<and>
             (a2 = 0 \<and> b2 = 0 \<and> c2 = 1 \<longrightarrow> depth = x)) \<and>
        (butlast (map sensor cs) @ [last (map sensor cs)]) ! i = (x, y, z)"
    if "i < 9" for i
    unfolding whole [OF that]
    by (cases "cs ! i") (simp add: project_def sensor_def)
  show ?thesis
    using result camera_parts(1) sensor_parts(1) each by blast
qed

text \<open>
  Claim C6 in the test scene: the eight corners and the origin come back from the
  sensor transform as nine points; the second corner \<open>(1, 1, - 1)\<close> is projected to the
  pixel \<open>(55, 55)\<close> at depth 1, and the reference point \<open>(3/2, 0, 0)\<close> to the pixel
  \<open>(50, 50)\<close> at depth \<open>3/2\<close>.
\<close>

theorem projection_of_nine_points_witness:
  "vehicle_to_sensor scene_boxes
     (create_bb_points scene_boxes (scene_agent ''vehicle.tesla.model3'') @ [(0, 0, 0, 1)])
     (scene_agent ''vehicle.tesla.model3'') () =
   [(2, 1, - 1, 1), (1, 1, - 1, 1), (1, - 1, - 1, 1), (2, - 1, - 1, 1), (2, 1, 1, 1),
    (1, 1, 1, 1), (1, - 1, 1, 1), (2, - 1, 1, 1), (3 / 2, 0, 0, 1)] \<and>
   (\<exists>camera_bbox camera_refpoint sensor_bbox sensor_refpoint.
      get_bounding_box_and_refpoint scene_boxes (scene_agent ''vehicle.tesla.model3'') ()
        ((5, 0, 50), (0, 5, 50), (0, 0, 1)) =
      Inr ((camera_bbox, camera_refpoint), (sensor_bbox, sensor_refpoint)) \<and>
      length camera_bbox = 8 \<and> length sensor_bbox = 8 \<and>
      (camera_bbox @ [camera_refpoint]) ! 1 = (55, 55, 1) \<and>
      (camera_bbox @ [camera_refpoint]) ! 8 = (50, 50, 3 / 2) \<and>
      (sensor_bbox @ [sensor_refpoint]) ! 8 = (3 / 2, 0, 0))"
proof -
  have corners: "length (create_bb_points scene_boxes (scene_agent ''vehicle.tesla.model3'')) = 8"
    by (simp add: scene_boxes_def scene_agent_def)
  have batch: "vehicle_to_sensor scene_boxes
       (create_bb_points scene_boxes (scene_agent ''vehicle.tesla.model3'') @ [(0, 0, 0, 1)])
       (scene_agent ''vehicle.tesla.model3'') () =
     [(2, 1, - 1, 1), (1, 1, - 1, 1), (1, - 1, - 1, 1), (2, - 1, - 1, 1), (2, 1, 1, 1),
      (1, 1, 1, 1), (1, - 1, 1, 1), (2, - 1, 1, 1), (3 / 2, 0, 0, 1)]"
    by (simp add: scene_boxes_def scene_agent_def)
  have nine: "length [(2, 1, - 1, 1), (1, 1, - 1, 1), (1, - 1, - 1, 1), (2, - 1, - 1, 1),
      (2, 1, 1, 1), (1, 1, 1, 1), (1, - 1, 1, 1), (2, - 1, 1, 1), (3 / 2, 0, 0, 1 :: real)] = 9"
    by simp
  from projection_of_nine_points [OF corners batch nine, of 5 0 50 0 5 50 0 0 1]
  obtain camera_bbox camera_refpoint sensor_bbox sensor_refpoint where
    result: "get_bounding_box_and_refpoint scene_boxes (scene_agent ''vehicle.tesla.model3'') ()
               ((5, 0, 50), (0, 5, 50), (0, 0, 1)) =
             Inr ((camera_bbox, camera_refpoint), (sensor_bbox, sensor_refpoint))"
    and lengths: "length camera_bbox = 8" "length sensor_bbox = 8"
    and points: "\<forall>i < 9. case [(2, 1, - 1, 1), (1, 1, - 1, 1), (1, - 1, - 1, 1),
        (2, - 1, - 1, 1), (2, 1, 1, 1), (1, 1, 1, 1), (1, - 1, 1, 1), (2, - 1, 1, 1),
        (3 / 2, 0, 0, 1 :: real)] ! i of
      (x, y, z, w) \<Rightarrow>
        (case (camera_bbox @ [camera_refpoint]) ! i of
           (pixel_x, pixel_y, depth) \<Rightarrow>
             depth = 0 * y + 0 * (- z) + 1 * x \<and>
             (depth \<noteq> 0 \<longrightarrow>
                pixel_x = (5 * y + 0 * (- z) + 50 * x) / depth \<and>
                pixel_y = (0 * y + 5 * (- z) + 50 * x) / depth) \<and>
             ((0::real) = 0 \<and> (0::real) = 0 \<and> (1::real) = 1 \<longrightarrow> depth = x)) \<and>
        (sensor_bbox @ [sensor_refpoint]) ! i = (x, y, z)"
    by blast
  have second: "(camera_bbox @ [camera_refpoint]) ! 1 = (55, 55, 1)"
    using points [rule_format, of 1] by (cases "(camera_bbox @ [camera_refpoint]) ! 1") simp
  have ninth: "(camera_bbox @ [camera_refpoint]) ! 8 = (50, 50, 3 / 2)"
  proof -
    obtain pixel_x pixel_y depth where
      p: "(camera_bbox @ [camera_refpoint]) ! 8 = (pixel_x, pixel_y, depth)"
      by (cases "(camera_bbox @ [camera_refpoint]) ! 8") auto
    have d: "depth = 3 / 2" using points [rule_format, of 8] unfolding p by simp
    have "pixel_x = 50 \<and> pixel_y = 50" using points [rule_format, of 8] unfolding p d by simp
    with p d show ?thesis by simp
  qed
  have reference: "(sensor_bbox @ [sensor_refpoint]) ! 8 = (3 / 2, 0, 0)"
    using points [rule_format, of 8] by (cases "(camera_bbox @ [camera_refpoint]) ! 8") simp
  from batch result lengths second ninth reference show ?thesis by blast
qed

end
